theory Spec2Isabelle
  imports Complex_Main
begin

section \<open>The multiscale Demons driver of \<open>66_Registration_Demons.ipynb\<close>\<close>

text \<open>
  The notebook defines two functions, \<open>smooth_and_resample\<close> and
  \<open>multiscale_demons\<close>. Both are sequences of calls into SimpleITK around a little
  arithmetic on the image grid. The embedding below keeps the arithmetic and the control
  flow of the two functions as they are written and takes the numeric routines of
  SimpleITK (Gaussian smoothing, resampling, transform conversion) and the registration
  algorithm as parameters that may fail.

  Python's \<open>float\<close> values are modelled as exact reals in the two functions. Where a
  statement about the new size depends on how the floating-point unit rounds, the size is
  also given with the rounding written out (\<open>new_size_axis_rounded\<close>), for any rounding
  that is monotone and leaves small integers and half-integers as they are. Python's
  \<open>int\<close> values are \<open>int\<close>; the sizes an image reports are unsigned and are \<open>nat\<close>.
\<close>

subsection \<open>Errors\<close>

datatype error =
    ZeroDivisionError
  | TypeError
  | IndexError
  | RuntimeError nat

subsection \<open>Arithmetic of the new grid\<close>

text \<open>Python's \<open>int(x)\<close> on a float truncates towards zero.\<close>

definition py_int :: "real \<Rightarrow> int" where
  "py_int x = (if 0 \<le> x then \<lfloor>x\<rfloor> else \<lceil>x\<rceil>)"

text \<open>
  One element of \<open>[int(sz/float(shrink_factor) + 0.5) for sz in original_size]\<close>.
  Float division by zero raises.
\<close>

definition new_size_axis :: "nat \<Rightarrow> real \<Rightarrow> error + int" where
  "new_size_axis sz shrink_factor =
     (if shrink_factor = 0 then Inl ZeroDivisionError
      else Inr (py_int (real sz / shrink_factor + 1 / 2)))"

text \<open>
  The same element with the rounding of the floating-point unit written out: \<open>fl\<close> maps
  a real to the float that stands for it, once after the division and once after the
  addition. \<open>new_size_axis\<close> is the case in which nothing is rounded.
\<close>

definition new_size_axis_rounded :: "(real \<Rightarrow> real) \<Rightarrow> nat \<Rightarrow> real \<Rightarrow> error + int" where
  "new_size_axis_rounded fl sz shrink_factor =
     (if shrink_factor = 0 then Inl ZeroDivisionError
      else Inr (py_int (fl (fl (real sz / shrink_factor) + 1 / 2))))"

text \<open>
  One element of
  \<open>[((original_sz-1)*original_spc)/(new_sz-1) for original_sz, original_spc, new_sz in zip(...)]\<close>.
  The numerator is a float, the denominator the integer \<open>new_sz-1\<close>; Python raises
  \<open>ZeroDivisionError\<close> when it is zero.
\<close>

definition new_spacing_axis :: "nat \<times> real \<times> int \<Rightarrow> error + real" where
  "new_spacing_axis t =
     (case t of (original_sz, original_spc, new_sz) \<Rightarrow>
        if new_sz - 1 = 0 then Inl ZeroDivisionError
        else Inr ((real_of_int (int original_sz - 1) * original_spc) / real_of_int (new_sz - 1)))"

text \<open>
  A list comprehension whose element expression may raise: elements are computed left to
  right and the first exception ends the comprehension.
\<close>

fun comprehension :: "('a \<Rightarrow> error + 'b) \<Rightarrow> 'a list \<Rightarrow> error + 'b list" where
  "comprehension f [] = Inr []"
| "comprehension f (x # xs) =
     (case f x of
        Inl e \<Rightarrow> Inl e
      | Inr y \<Rightarrow> (case comprehension f xs of Inl e \<Rightarrow> Inl e | Inr ys \<Rightarrow> Inr (y # ys)))"

definition new_size_list :: "nat list \<Rightarrow> real \<Rightarrow> error + int list" where
  "new_size_list original_size shrink_factor =
     comprehension (\<lambda>sz. new_size_axis sz shrink_factor) original_size"

definition new_spacing_list :: "nat list \<Rightarrow> real list \<Rightarrow> int list \<Rightarrow> error + real list" where
  "new_spacing_list original_size original_spacing new_size =
     comprehension new_spacing_axis (zip original_size (zip original_spacing new_size))"

subsection \<open>Images\<close>

text \<open>
  A SimpleITK image as far as the notebook reads it: the grid (size, spacing, origin and
  the direction matrix, flattened row by row as \<open>GetDirection\<close> returns it), the pixel
  type and the pixel buffer, one vector of components for each voxel. A displacement
  field is an image of pixel type \<open>sitkVectorFloat64\<close>.
\<close>

datatype pixel_id = sitkFloat32 | sitkFloat64 | sitkVectorFloat64

datatype interpolator = sitkNearestNeighbor | sitkLinear

record sitk_image =
  GetSize :: "nat list"
  GetSpacing :: "real list"
  GetOrigin :: "real list"
  GetDirection :: "real list"
  GetPixelID :: pixel_id
  pixels :: "real list list"

text \<open>\<open>GetWidth\<close>, \<open>GetHeight\<close> and \<open>GetDepth\<close>; the depth of a 2D image is 0.\<close>

definition GetWidth :: "sitk_image \<Rightarrow> nat" where
  "GetWidth img = (case GetSize img of w # _ \<Rightarrow> w | _ \<Rightarrow> 0)"

definition GetHeight :: "sitk_image \<Rightarrow> nat" where
  "GetHeight img = (case GetSize img of _ # h # _ \<Rightarrow> h | _ \<Rightarrow> 0)"

definition GetDepth :: "sitk_image \<Rightarrow> nat" where
  "GetDepth img = (case GetSize img of _ # _ # d # _ \<Rightarrow> d | _ \<Rightarrow> 0)"

definition identity_direction :: "nat \<Rightarrow> real list" where
  "identity_direction n =
     concat (map (\<lambda>i. map (\<lambda>j. if i = j then 1 else 0) [0..<n]) [0..<n])"

text \<open>
  \<open>sitk.Image(width, height, depth, pixelID)\<close>: a new image with every component 0,
  unit spacing, zero origin and identity direction; 2D when the depth is 0, 3D otherwise.
  A vector pixel type gets as many components as the image has dimensions.
\<close>

definition Image :: "nat \<Rightarrow> nat \<Rightarrow> nat \<Rightarrow> pixel_id \<Rightarrow> sitk_image" where
  "Image width height depth pixelID =
     (let sz = (if depth = 0 then [width, height] else [width, height, depth]);
          n = length sz;
          components = (if pixelID = sitkVectorFloat64 then n else 1)
      in \<lparr>GetSize = sz, GetSpacing = replicate n 1, GetOrigin = replicate n 0,
          GetDirection = identity_direction n, GetPixelID = pixelID,
          pixels = replicate (prod_list sz) (replicate components 0)\<rparr>)"

text \<open>
  \<open>img.CopyInformation(src)\<close> copies origin, spacing and direction of \<open>src\<close> to
  \<open>img\<close>; SimpleITK raises when the two images differ in dimension or size.
\<close>

definition CopyInformation :: "sitk_image \<Rightarrow> sitk_image \<Rightarrow> error + sitk_image" where
  "CopyInformation img src =
     (if GetSize img \<noteq> GetSize src then Inl (RuntimeError 0)
      else Inr (img\<lparr>GetOrigin := GetOrigin src, GetSpacing := GetSpacing src,
                    GetDirection := GetDirection src\<rparr>))"

datatype displacement_field_transform = DisplacementFieldTransform sitk_image

subsection \<open>The library and the log of calls\<close>

text \<open>
  The numeric routines of SimpleITK that the notebook calls. Each one returns an image or
  raises. \<open>Resample\<close> is the overload taking the output grid (the transform argument is
  always the identity \<open>sitk.Transform()\<close> and is left out), \<open>ResampleToReference\<close> the
  overload \<open>sitk.Resample(image, referenceImage)\<close>. \<open>'t\<close> is the type of the
  transforms a caller may pass as \<open>initial_transform\<close>.
\<close>

record 't sitk =
  SmoothingRecursiveGaussian :: "sitk_image \<Rightarrow> real \<Rightarrow> error + sitk_image"
  Resample :: "sitk_image \<Rightarrow> int list \<Rightarrow> interpolator \<Rightarrow> real list \<Rightarrow> real list \<Rightarrow> real list
                 \<Rightarrow> real \<Rightarrow> pixel_id \<Rightarrow> error + sitk_image"
  ResampleToReference :: "sitk_image \<Rightarrow> sitk_image \<Rightarrow> error + sitk_image"
  TransformToDisplacementField :: "'t \<Rightarrow> pixel_id \<Rightarrow> nat list \<Rightarrow> real list \<Rightarrow> real list
                 \<Rightarrow> real list \<Rightarrow> error + sitk_image"

text \<open>
  The registration algorithm is any object with a method
  \<open>Execute(fixed_image, moving_image, displacement_field_image)\<close>.
\<close>

type_synonym registration_algorithm = "sitk_image \<Rightarrow> sitk_image \<Rightarrow> sitk_image \<Rightarrow> error + sitk_image"

text \<open>
  One entry of the log for each call of a numeric routine of the library and for each
  \<open>Execute\<close> of the algorithm.
\<close>

datatype 't call =
    Call_SmoothingRecursiveGaussian sitk_image real
  | Call_Resample sitk_image "int list" interpolator "real list" "real list" "real list" real pixel_id
  | Call_ResampleToReference sitk_image sitk_image
  | Call_TransformToDisplacementField 't pixel_id "nat list" "real list" "real list" "real list"
  | Call_Execute sitk_image sitk_image sitk_image

text \<open>
  A computation yields the calls it made, in order, and either the exception that ended it
  or its value.
\<close>

type_synonym ('t, 'a) io = "'t call list \<times> (error + 'a)"

definition return_io :: "'a \<Rightarrow> ('t, 'a) io" where
  "return_io x = ([], Inr x)"

definition lift_io :: "error + 'a \<Rightarrow> ('t, 'a) io" where
  "lift_io r = ([], r)"

definition call_io :: "'t call \<Rightarrow> error + 'a \<Rightarrow> ('t, 'a) io" where
  "call_io c r = ([c], r)"

definition bind_io :: "('t, 'a) io \<Rightarrow> ('a \<Rightarrow> ('t, 'b) io) \<Rightarrow> ('t, 'b) io" where
  "bind_io m k =
     (case snd m of
        Inl e \<Rightarrow> (fst m, Inl e)
      | Inr x \<Rightarrow> (fst m @ fst (k x), snd (k x)))"

text \<open>\<open>xs[0]\<close> and \<open>xs[-1]\<close>; both raise on the empty list.\<close>

definition index_first :: "'a list \<Rightarrow> error + 'a" where
  "index_first xs = (case xs of [] \<Rightarrow> Inl IndexError | x # _ \<Rightarrow> Inr x)"

definition index_last :: "'a list \<Rightarrow> error + 'a" where
  "index_last xs = (if xs = [] then Inl IndexError else Inr (last xs))"

subsection \<open>\<open>smooth_and_resample\<close>\<close>

text \<open>The argument \<open>image\<close> of the source is \<open>img\<close> here.\<close>

definition smooth_and_resample :: "'t sitk \<Rightarrow> sitk_image \<Rightarrow> real \<Rightarrow> real \<Rightarrow> ('t, sitk_image) io" where
  "smooth_and_resample lib img shrink_factor smoothing_sigma =
     bind_io (call_io (Call_SmoothingRecursiveGaussian img smoothing_sigma)
                (SmoothingRecursiveGaussian lib img smoothing_sigma)) (\<lambda>smoothed_image.
     let original_spacing = GetSpacing img;
         original_size = GetSize img
     in
     bind_io (lift_io (new_size_list original_size shrink_factor)) (\<lambda>new_size.
     bind_io (lift_io (new_spacing_list original_size original_spacing new_size)) (\<lambda>new_spacing.
     call_io (Call_Resample smoothed_image new_size sitkLinear (GetOrigin img) new_spacing
                (GetDirection img) 0 (GetPixelID img))
       (Resample lib smoothed_image new_size sitkLinear (GetOrigin img) new_spacing
                (GetDirection img) 0 (GetPixelID img)))))"

subsection \<open>\<open>multiscale_demons\<close>\<close>

text \<open>
  The body of the loop over \<open>reversed(list(zip(shrink_factors, smoothing_sigmas)))\<close>:
  both lists grow at the end, and each level is computed from element 0 of its list.
\<close>

fun pyramid_loop :: "'t sitk \<Rightarrow> (real \<times> real) list \<Rightarrow> sitk_image list \<Rightarrow> sitk_image list
                       \<Rightarrow> ('t, sitk_image list \<times> sitk_image list) io" where
  "pyramid_loop lib [] fixed_images moving_images = return_io (fixed_images, moving_images)"
| "pyramid_loop lib ((shrink_factor, smoothing_sigma) # rest) fixed_images moving_images =
     bind_io (lift_io (index_first fixed_images)) (\<lambda>fixed0.
     bind_io (smooth_and_resample lib fixed0 shrink_factor smoothing_sigma) (\<lambda>fixed_level.
     bind_io (lift_io (index_first moving_images)) (\<lambda>moving0.
     bind_io (smooth_and_resample lib moving0 shrink_factor smoothing_sigma) (\<lambda>moving_level.
     pyramid_loop lib rest (fixed_images @ [fixed_level]) (moving_images @ [moving_level])))))"

text \<open>
  ``Create image pyramid''. \<open>shrink_factors\<close> and \<open>smoothing_sigmas\<close> default to
  \<open>None\<close>; \<open>if shrink_factors:\<close> is false for \<open>None\<close> and for the empty list, and
  \<open>zip\<close> raises \<open>TypeError\<close> on \<open>None\<close>.
\<close>

definition create_image_pyramid :: "'t sitk \<Rightarrow> sitk_image \<Rightarrow> sitk_image \<Rightarrow> real list option
     \<Rightarrow> real list option \<Rightarrow> ('t, sitk_image list \<times> sitk_image list) io" where
  "create_image_pyramid lib fixed_image moving_image shrink_factors smoothing_sigmas =
     (case shrink_factors of
        None \<Rightarrow> return_io ([fixed_image], [moving_image])
      | Some [] \<Rightarrow> return_io ([fixed_image], [moving_image])
      | Some sfs \<Rightarrow>
          (case smoothing_sigmas of
             None \<Rightarrow> lift_io (Inl TypeError)
           | Some sgs \<Rightarrow> pyramid_loop lib (rev (zip sfs sgs)) [fixed_image] [moving_image]))"

text \<open>
  ``Create initial displacement field at lowest resolution'', on the grid of
  \<open>fixed_images[-1]\<close>.
\<close>

definition create_initial_displacement_field :: "'t sitk \<Rightarrow> 't option \<Rightarrow> sitk_image list
     \<Rightarrow> ('t, sitk_image) io" where
  "create_initial_displacement_field lib initial_transform fixed_images =
     bind_io (lift_io (index_last fixed_images)) (\<lambda>fixed_top.
     case initial_transform of
       Some t \<Rightarrow>
         call_io (Call_TransformToDisplacementField t sitkVectorFloat64 (GetSize fixed_top)
                    (GetOrigin fixed_top) (GetSpacing fixed_top) (GetDirection fixed_top))
           (TransformToDisplacementField lib t sitkVectorFloat64 (GetSize fixed_top)
                    (GetOrigin fixed_top) (GetSpacing fixed_top) (GetDirection fixed_top))
     | None \<Rightarrow>
         lift_io (CopyInformation
                    (Image (GetWidth fixed_top) (GetHeight fixed_top) (GetDepth fixed_top)
                       sitkVectorFloat64)
                    fixed_top))"

text \<open>
  ``Start at the top of the pyramid and work our way down'': the loop over
  \<open>reversed(list(zip(fixed_images[0:-1], moving_images[0:-1])))\<close>.
\<close>

fun down_the_pyramid :: "'t sitk \<Rightarrow> registration_algorithm \<Rightarrow> (sitk_image \<times> sitk_image) list
     \<Rightarrow> sitk_image \<Rightarrow> ('t, sitk_image) io" where
  "down_the_pyramid lib registration_algorithm [] initial_displacement_field =
     return_io initial_displacement_field"
| "down_the_pyramid lib registration_algorithm ((f_image, m_image) # rest) initial_displacement_field =
     bind_io (call_io (Call_ResampleToReference initial_displacement_field f_image)
                (ResampleToReference lib initial_displacement_field f_image)) (\<lambda>resampled.
     bind_io (call_io (Call_Execute f_image m_image resampled)
                (registration_algorithm f_image m_image resampled)) (\<lambda>updated.
     down_the_pyramid lib registration_algorithm rest updated))"

text \<open>``Run the registration'': the first \<open>Execute\<close> on the last elements, then the loop.\<close>

definition run_the_registration :: "'t sitk \<Rightarrow> registration_algorithm \<Rightarrow> sitk_image list
     \<Rightarrow> sitk_image list \<Rightarrow> sitk_image \<Rightarrow> ('t, sitk_image) io" where
  "run_the_registration lib registration_algorithm fixed_images moving_images
       initial_displacement_field =
     bind_io (lift_io (index_last fixed_images)) (\<lambda>f_top.
     bind_io (lift_io (index_last moving_images)) (\<lambda>m_top.
     bind_io (call_io (Call_Execute f_top m_top initial_displacement_field)
                (registration_algorithm f_top m_top initial_displacement_field)) (\<lambda>updated.
     down_the_pyramid lib registration_algorithm
       (rev (zip (butlast fixed_images) (butlast moving_images))) updated)))"

definition multiscale_demons :: "'t sitk \<Rightarrow> registration_algorithm \<Rightarrow> sitk_image \<Rightarrow> sitk_image
     \<Rightarrow> 't option \<Rightarrow> real list option \<Rightarrow> real list option
     \<Rightarrow> ('t, displacement_field_transform) io" where
  "multiscale_demons lib registration_algorithm fixed_image moving_image initial_transform
       shrink_factors smoothing_sigmas =
     bind_io (create_image_pyramid lib fixed_image moving_image shrink_factors smoothing_sigmas)
       (\<lambda>pyramid. case pyramid of (fixed_images, moving_images) \<Rightarrow>
     bind_io (create_initial_displacement_field lib initial_transform fixed_images)
       (\<lambda>initial_displacement_field.
     bind_io (run_the_registration lib registration_algorithm fixed_images moving_images
                initial_displacement_field) (\<lambda>final_displacement_field.
     return_io (DisplacementFieldTransform final_displacement_field))))"

subsection \<open>What the library is expected to do\<close>

text \<open>
  The two library routines that are handed a grid return, when they return at all, an
  image on that grid. These are the only facts about SimpleITK's numeric routines that
  the results below rely on, and each result that needs one names it as a hypothesis.
\<close>

definition Resample_on_requested_grid :: "'t sitk \<Rightarrow> bool" where
  "Resample_on_requested_grid lib \<longleftrightarrow>
     (\<forall>img new_size interp origin new_spacing direction default_value pixelID out.
        Resample lib img new_size interp origin new_spacing direction default_value pixelID = Inr out
        \<longrightarrow> map int (GetSize out) = new_size \<and> GetSpacing out = new_spacing
            \<and> GetOrigin out = origin \<and> GetDirection out = direction)"

definition TransformToDisplacementField_on_requested_grid :: "'t sitk \<Rightarrow> bool" where
  "TransformToDisplacementField_on_requested_grid lib \<longleftrightarrow>
     (\<forall>t pixelID sz origin spacing direction out.
        TransformToDisplacementField lib t pixelID sz origin spacing direction = Inr out
        \<longrightarrow> GetSize out = sz \<and> GetSpacing out = spacing
            \<and> GetOrigin out = origin \<and> GetDirection out = direction)"

definition same_grid :: "sitk_image \<Rightarrow> sitk_image \<Rightarrow> bool" where
  "same_grid a b \<longleftrightarrow>
     GetSize a = GetSize b \<and> GetOrigin a = GetOrigin b
     \<and> GetSpacing a = GetSpacing b \<and> GetDirection a = GetDirection b"

subsection \<open>The specification's wording, for comparison\<close>

text \<open>
  The zero displacement field on the grid of a reference image: every voxel's displacement
  vector is the zero vector.
\<close>

definition zero_displacement_field :: "sitk_image \<Rightarrow> sitk_image" where
  "zero_displacement_field reference =
     \<lparr>GetSize = GetSize reference, GetSpacing = GetSpacing reference,
      GetOrigin = GetOrigin reference, GetDirection = GetDirection reference,
      GetPixelID = sitkVectorFloat64,
      pixels = replicate (prod_list (GetSize reference))
                 (replicate (length (GetSize reference)) 0)\<rparr>"

text \<open>
  The driver loop as the specification words it: for each level, first to last, execute
  the algorithm; if the level is not the last one, resample the updated field onto the
  next level's grid and carry it over.
\<close>

fun for_each_level :: "'t sitk \<Rightarrow> registration_algorithm \<Rightarrow> (sitk_image \<times> sitk_image) list
     \<Rightarrow> sitk_image \<Rightarrow> ('t, sitk_image) io" where
  "for_each_level lib algorithm [] current = return_io current"
| "for_each_level lib algorithm [(fixed_level, moving_level)] current =
     call_io (Call_Execute fixed_level moving_level current)
       (algorithm fixed_level moving_level current)"
| "for_each_level lib algorithm ((fixed_level, moving_level) # (next_fixed, next_moving) # finer)
       current =
     bind_io (call_io (Call_Execute fixed_level moving_level current)
                (algorithm fixed_level moving_level current)) (\<lambda>updated.
     bind_io (call_io (Call_ResampleToReference updated next_fixed)
                (ResampleToReference lib updated next_fixed)) (\<lambda>resampled.
     for_each_level lib algorithm ((next_fixed, next_moving) # finer) resampled))"

text \<open>
  The descriptor list that the two optional arguments of the driver stand for, in the order
  supplied.
\<close>

definition descriptors :: "real list option \<Rightarrow> real list option \<Rightarrow> (real \<times> real) list" where
  "descriptors shrink_factors smoothing_sigmas =
     (case (shrink_factors, smoothing_sigmas) of
        (Some sfs, Some sgs) \<Rightarrow> zip sfs sgs
      | _ \<Rightarrow> [])"

text \<open>One image is no finer than another: on no axis does it have more samples.\<close>

definition no_finer :: "sitk_image \<Rightarrow> sitk_image \<Rightarrow> bool" where
  "no_finer a b \<longleftrightarrow> list_all2 (\<le>) (GetSize a) (GetSize b)"

subsection \<open>Reading the log\<close>

text \<open>The pyramid levels of the \<open>Execute\<close> calls, in the order of the calls.\<close>

fun executed_levels :: "'t call list \<Rightarrow> (sitk_image \<times> sitk_image) list" where
  "executed_levels [] = []"
| "executed_levels (Call_Execute f m d # cs) = (f, m) # executed_levels cs"
| "executed_levels (c # cs) = executed_levels cs"

text \<open>The reference images of the field resamplings, in the order of the calls.\<close>

fun resample_targets :: "'t call list \<Rightarrow> sitk_image list" where
  "resample_targets [] = []"
| "resample_targets (Call_ResampleToReference d reference # cs) = reference # resample_targets cs"
| "resample_targets (c # cs) = resample_targets cs"

text \<open>The images handed to the Gaussian smoothing.\<close>

fun smoothed_inputs :: "'t call list \<Rightarrow> sitk_image list" where
  "smoothed_inputs [] = []"
| "smoothed_inputs (Call_SmoothingRecursiveGaussian img sigma # cs) = img # smoothed_inputs cs"
| "smoothed_inputs (c # cs) = smoothed_inputs cs"

subsection \<open>A stand-in library for concrete runs\<close>

text \<open>
  A library and an algorithm simple enough to run by hand: smoothing returns its input,
  resampling returns a constant image on the requested grid and rejects a negative size,
  the transform (a number) is
  converted to a constant field, and the algorithm adds 1 to every component of the field.
\<close>

definition constant_image :: "nat list \<Rightarrow> real list \<Rightarrow> real list \<Rightarrow> real list \<Rightarrow> pixel_id
     \<Rightarrow> real list \<Rightarrow> sitk_image" where
  "constant_image sz spacing origin direction pixelID v =
     \<lparr>GetSize = sz, GetSpacing = spacing, GetOrigin = origin, GetDirection = direction,
      GetPixelID = pixelID, pixels = replicate (prod_list sz) v\<rparr>"

definition mock_sitk :: "real sitk" where
  "mock_sitk =
     \<lparr>SmoothingRecursiveGaussian = (\<lambda>img sigma. Inr img),
      Resample = (\<lambda>img new_size interp origin new_spacing direction default_value pixelID.
         if list_all (\<lambda>n. 0 \<le> n) new_size
         then Inr (constant_image (map nat new_size) new_spacing origin direction pixelID
                     [default_value])
         else Inl (RuntimeError 1)),
      ResampleToReference = (\<lambda>img reference.
         Inr (constant_image (GetSize reference) (GetSpacing reference) (GetOrigin reference)
                (GetDirection reference) (GetPixelID img) (replicate (length (GetSize reference)) 0))),
      TransformToDisplacementField = (\<lambda>t pixelID sz origin spacing direction.
         Inr (constant_image sz spacing origin direction pixelID (replicate (length sz) t)))\<rparr>"

definition mock_algorithm :: registration_algorithm where
  "mock_algorithm fixed_image moving_image displacement_field =
     Inr (displacement_field\<lparr>pixels := map (map (\<lambda>v. v + 1)) (pixels displacement_field)\<rparr>)"

text \<open>A rounding to run by hand: up to the next multiple of a quarter.\<close>

definition quarter_rounding :: "real \<Rightarrow> real" where
  "quarter_rounding x = real_of_int \<lceil>4 * x\<rceil> / 4"

text \<open>A square 2D image of the given side with unit spacing.\<close>

definition square_image :: "nat \<Rightarrow> sitk_image" where
  "square_image n = constant_image [n, n] [1, 1] [0, 0] [1, 0, 0, 1] sitkFloat32 [0]"

text \<open>
  What the stand-in library returns for \<open>square_image 8\<close> shrunk by 2 and by 4: 4 by 4
  with spacing \<open>7/3\<close>, and 2 by 2 with spacing 7.
\<close>

definition level_by_2 :: sitk_image where
  "level_by_2 = constant_image [4, 4] [7 / 3, 7 / 3] [0, 0] [1, 0, 0, 1] sitkFloat32 [0]"

definition level_by_4 :: sitk_image where
  "level_by_4 = constant_image [2, 2] [7, 7] [0, 0] [1, 0, 0, 1] sitkFloat32 [0]"

subsection \<open>Properties of the new size\<close>

lemma py_int_nonneg: "0 \<le> x \<Longrightarrow> py_int x = \<lfloor>x\<rfloor>"
  by (simp add: py_int_def)

lemma new_size_axis_pos:
  assumes "0 < shrink_factor"
  shows "new_size_axis sz shrink_factor = Inr \<lfloor>real sz / shrink_factor + 1 / 2\<rfloor>"
proof -
  have "0 \<le> real sz / shrink_factor + 1 / 2"
    using assms by simp
  then show ?thesis
    using assms by (simp add: new_size_axis_def py_int_nonneg)
qed


lemma new_size_axis_rounded_exact:
  "new_size_axis_rounded (\<lambda>x. x) sz shrink_factor = new_size_axis sz shrink_factor"
  by (simp add: new_size_axis_rounded_def new_size_axis_def)

lemma rounded_sum_between:
  assumes mono: "mono fl"
    and lo: "fl lo = lo" and hi: "fl hi = hi"
    and x: "lo \<le> x" "x \<le> hi"
  shows "lo \<le> fl x \<and> fl x \<le> hi"
  using monoD [OF mono x(1)] monoD [OF mono x(2)] lo hi by simp

lemma mono_quarter_rounding: "mono quarter_rounding"
proof (rule monoI)
  fix x y :: real
  assume "x \<le> y"
  then have "\<lceil>4 * x\<rceil> \<le> \<lceil>4 * y\<rceil>" by (intro ceiling_mono) simp
  then show "quarter_rounding x \<le> quarter_rounding y"
    by (simp add: quarter_rounding_def divide_right_mono)
qed

lemma quarter_rounding_exact:
  "quarter_rounding (real k) = real k \<and> quarter_rounding (real k + 1 / 2) = real k + 1 / 2"
proof -
  have "4 * real k = real_of_int (int (4 * k))" by simp
  then have a: "\<lceil>4 * real k\<rceil> = int (4 * k)" by (simp only: ceiling_of_int)
  have "4 * (real k + 1 / 2) = real_of_int (int (4 * k + 2))" by simp
  then have b: "\<lceil>4 * (real k + 1 / 2)\<rceil> = int (4 * k + 2)" by (simp only: ceiling_of_int)
  show ?thesis
    unfolding quarter_rounding_def a b by simp
qed

text \<open>
  The order of the new sizes does not depend on the floats being exact: for any monotone
  rounding a larger shrink factor gives a new size that is no larger, and a shrink factor
  of at least 1 gives a new size no larger than the original one.
\<close>

lemma py_int_mono: "py_int x \<le> py_int y" if "x \<le> y"
proof (cases "0 \<le> x")
  case True
  then show ?thesis using that by (simp add: py_int_def floor_mono)
next
  case False
  then have neg: "\<lceil>x\<rceil> \<le> 0" by (simp add: ceiling_le_iff)
  show ?thesis
  proof (cases "0 \<le> y")
    case True
    then have "0 \<le> \<lfloor>y\<rfloor>" by simp
    with neg have "\<lceil>x\<rceil> \<le> \<lfloor>y\<rfloor>" by (rule order_trans)
    then show ?thesis using False True by (simp add: py_int_def)
  next
    case y: False
    then show ?thesis using False that by (simp add: py_int_def ceiling_mono)
  qed
qed

lemma new_size_axis_rounded_antimono:
  assumes "mono fl" and "0 < finer_factor" and "finer_factor \<le> coarser_factor"
  shows "\<exists>coarser finer. new_size_axis_rounded fl sz coarser_factor = Inr coarser
           \<and> new_size_axis_rounded fl sz finer_factor = Inr finer \<and> coarser \<le> finer"
proof -
  have "real sz / coarser_factor \<le> real sz / finer_factor"
    using assms(2,3) by (simp add: frac_le)
  then have "fl (real sz / coarser_factor) + 1 / 2 \<le> fl (real sz / finer_factor) + 1 / 2"
    using assms(1) by (simp add: monoD)
  then have "fl (fl (real sz / coarser_factor) + 1 / 2) \<le> fl (fl (real sz / finer_factor) + 1 / 2)"
    using assms(1) by (rule monoD [rotated])
  then show ?thesis
    using assms(2,3) by (simp add: new_size_axis_rounded_def py_int_mono)
qed

lemma new_size_axis_rounded_le:
  assumes "mono fl" and "fl (real sz) = real sz" and "fl (real sz + 1 / 2) = real sz + 1 / 2"
    and "1 \<le> shrink_factor"
  shows "\<exists>n. new_size_axis_rounded fl sz shrink_factor = Inr n \<and> n \<le> int sz"
proof -
  have "real sz / shrink_factor \<le> real sz"
    using assms(4) by (simp add: field_simps mult_le_cancel_right1 mult_le_cancel_left1)
  then have "fl (real sz / shrink_factor) \<le> fl (real sz)"
    using assms(1) by (rule monoD [rotated])
  then have "fl (real sz / shrink_factor) + 1 / 2 \<le> real sz + 1 / 2"
    using assms(2) by simp
  then have "fl (fl (real sz / shrink_factor) + 1 / 2) \<le> fl (real sz + 1 / 2)"
    using assms(1) by (rule monoD [rotated])
  then have "py_int (fl (fl (real sz / shrink_factor) + 1 / 2)) \<le> py_int (real sz + 1 / 2)"
    using assms(3) by (simp add: py_int_mono)
  moreover have "py_int (real sz + 1 / 2) = int sz"
    unfolding py_int_def by simp
  ultimately show ?thesis
    using assms(4) by (simp add: new_size_axis_rounded_def)
qed

subsection \<open>List comprehensions that may raise\<close>

lemma comprehension_Cons_Inr:
  "comprehension f (x # xs) = Inr zs \<longleftrightarrow>
     (\<exists>y ys. f x = Inr y \<and> comprehension f xs = Inr ys \<and> zs = y # ys)"
  by (cases "f x"; cases "comprehension f xs") auto

lemma comprehension_Inr:
  "comprehension f xs = Inr ys \<Longrightarrow> list_all2 (\<lambda>x y. f x = Inr y) xs ys"
proof (induction xs arbitrary: ys)
  case Nil
  then show ?case by simp
next
  case (Cons x xs)
  from Cons.prems obtain y ys' where
    "f x = Inr y" "comprehension f xs = Inr ys'" "ys = y # ys'"
    unfolding comprehension_Cons_Inr by blast
  then show ?case
    using Cons.IH [of ys'] by simp
qed

lemma comprehension_map:
  "(\<And>x. x \<in> set xs \<Longrightarrow> f x = Inr (g x)) \<Longrightarrow> comprehension f xs = Inr (map g xs)"
  by (induction xs) simp_all

lemma comprehension_raises:
  assumes "x \<in> set xs" and "f x = Inl e"
    and only: "\<forall>y \<in> set xs. \<forall>e'. f y = Inl e' \<longrightarrow> e' = e"
  shows "comprehension f xs = Inl e"
  using assms
proof (induction xs)
  case Nil
  then show ?case by simp
next
  case (Cons a xs)
  show ?case
  proof (cases "f a")
    case (Inl e')
    then have "e' = e" using Cons.prems(3) by auto
    then show ?thesis using Inl by simp
  next
    case (Inr y)
    then have "x \<noteq> a" using Cons.prems(2) by auto
    then have mem: "x \<in> set xs" using Cons.prems(1) by simp
    have rest: "\<forall>y \<in> set xs. \<forall>e'. f y = Inl e' \<longrightarrow> e' = e"
      using Cons.prems(3) by auto
    have "comprehension f xs = Inl e"
      by (rule Cons.IH [OF mem Cons.prems(2) rest])
    then show ?thesis using Inr by simp
  qed
qed

subsection \<open>Sequencing\<close>

lemma apfst_append_Nil [simp]: "apfst ((@) []) p = p"
  by (cases p) simp

lemma snd_bind_io_Inr:
  "snd (bind_io m k) = Inr y \<longleftrightarrow> (\<exists>x. snd m = Inr x \<and> snd (k x) = Inr y)"
  by (cases "snd m") (simp_all add: bind_io_def)

lemma bind_io_Inl [simp]: "bind_io (l, Inl e) k = (l, Inl e)"
  by (simp add: bind_io_def)

lemma bind_io_Inr [simp]: "bind_io (l, Inr x) k = apfst ((@) l) (k x)"
  by (cases "k x") (simp add: bind_io_def)

lemma bind_return_io [simp]: "bind_io (return_io x) k = k x"
  by (simp add: return_io_def)

lemma bind_lift_io_Inr [simp]: "bind_io (lift_io (Inr x)) k = k x"
  by (simp add: lift_io_def)

lemma bind_lift_io_Inl [simp]: "bind_io (lift_io (Inl e)) k = ([], Inl e)"
  by (simp add: lift_io_def)

lemma bind_call_io_Inr [simp]: "bind_io (call_io c (Inr x)) k = apfst ((#) c) (k x)"
  by (cases "k x") (simp add: call_io_def)

lemma bind_call_io_Inl [simp]: "bind_io (call_io c (Inl e)) k = ([c], Inl e)"
  by (simp add: call_io_def)

subsection \<open>The four outcomes of \<open>smooth_and_resample\<close>\<close>

lemma smooth_and_resample_smoothing_fails:
  "SmoothingRecursiveGaussian lib img sg = Inl e \<Longrightarrow>
   smooth_and_resample lib img sf sg = ([Call_SmoothingRecursiveGaussian img sg], Inl e)"
  by (simp add: smooth_and_resample_def)

lemma smooth_and_resample_size_fails:
  "SmoothingRecursiveGaussian lib img sg = Inr smoothed \<Longrightarrow>
   new_size_list (GetSize img) sf = Inl e \<Longrightarrow>
   smooth_and_resample lib img sf sg = ([Call_SmoothingRecursiveGaussian img sg], Inl e)"
  by (simp add: smooth_and_resample_def)

lemma smooth_and_resample_spacing_fails:
  "SmoothingRecursiveGaussian lib img sg = Inr smoothed \<Longrightarrow>
   new_size_list (GetSize img) sf = Inr ns \<Longrightarrow>
   new_spacing_list (GetSize img) (GetSpacing img) ns = Inl e \<Longrightarrow>
   smooth_and_resample lib img sf sg = ([Call_SmoothingRecursiveGaussian img sg], Inl e)"
  by (simp add: smooth_and_resample_def)

lemma smooth_and_resample_resamples:
  "SmoothingRecursiveGaussian lib img sg = Inr smoothed \<Longrightarrow>
   new_size_list (GetSize img) sf = Inr ns \<Longrightarrow>
   new_spacing_list (GetSize img) (GetSpacing img) ns = Inr nsp \<Longrightarrow>
   smooth_and_resample lib img sf sg =
     ([Call_SmoothingRecursiveGaussian img sg,
       Call_Resample smoothed ns sitkLinear (GetOrigin img) nsp (GetDirection img) 0 (GetPixelID img)],
      Resample lib smoothed ns sitkLinear (GetOrigin img) nsp (GetDirection img) 0 (GetPixelID img))"
  by (simp add: smooth_and_resample_def call_io_def)

lemma smooth_and_resample_Inr:
  assumes "snd (smooth_and_resample lib img sf sg) = Inr out"
  shows "\<exists>smoothed ns nsp.
           SmoothingRecursiveGaussian lib img sg = Inr smoothed
         \<and> new_size_list (GetSize img) sf = Inr ns
         \<and> new_spacing_list (GetSize img) (GetSpacing img) ns = Inr nsp
         \<and> Resample lib smoothed ns sitkLinear (GetOrigin img) nsp (GetDirection img) 0 (GetPixelID img) = Inr out"
proof (cases "SmoothingRecursiveGaussian lib img sg")
  case (Inl e)
  then show ?thesis using assms by (simp add: smooth_and_resample_smoothing_fails)
next
  case smoothed: (Inr smoothed)
  show ?thesis
  proof (cases "new_size_list (GetSize img) sf")
    case (Inl e)
    then show ?thesis using assms smoothed by (simp add: smooth_and_resample_size_fails)
  next
    case ns: (Inr ns)
    show ?thesis
    proof (cases "new_spacing_list (GetSize img) (GetSpacing img) ns")
      case (Inl e)
      then show ?thesis using assms smoothed ns by (simp add: smooth_and_resample_spacing_fails)
    next
      case (Inr nsp)
      then show ?thesis using assms smoothed ns by (simp add: smooth_and_resample_resamples)
    qed
  qed
qed

lemma smoothed_inputs_smooth_and_resample:
  "smoothed_inputs (fst (smooth_and_resample lib img sf sg)) = [img]"
proof (cases "SmoothingRecursiveGaussian lib img sg")
  case (Inl e)
  then show ?thesis by (simp add: smooth_and_resample_smoothing_fails)
next
  case smoothed: (Inr smoothed)
  show ?thesis
  proof (cases "new_size_list (GetSize img) sf")
    case (Inl e)
    then show ?thesis using smoothed by (simp add: smooth_and_resample_size_fails)
  next
    case ns: (Inr ns)
    show ?thesis
    proof (cases "new_spacing_list (GetSize img) (GetSpacing img) ns")
      case (Inl e)
      then show ?thesis using smoothed ns by (simp add: smooth_and_resample_spacing_fails)
    next
      case (Inr nsp)
      then show ?thesis using smoothed ns by (simp add: smooth_and_resample_resamples)
    qed
  qed
qed

lemma new_spacing_axis_only_error:
  "new_spacing_axis t = Inl e \<Longrightarrow> e = ZeroDivisionError"
  by (cases t) (simp add: new_spacing_axis_def split: if_splits)

lemma new_size_list_length:
  "new_size_list szs sf = Inr ns \<Longrightarrow> length ns = length szs"
  unfolding new_size_list_def by (drule comprehension_Inr) (simp add: list_all2_lengthD)

lemma new_spacing_list_raises:
  assumes len: "length spacing = length szs" "length ns = length szs"
    and one: "1 \<in> set ns"
  shows "new_spacing_list szs spacing ns = Inl ZeroDivisionError"
proof -
  from one obtain i where i: "i < length ns" "ns ! i = 1"
    by (auto simp: in_set_conv_nth)
  let ?zs = "zip szs (zip spacing ns)"
  have "i < length ?zs" using i len by simp
  then have mem: "?zs ! i \<in> set ?zs" by (rule nth_mem)
  have "?zs ! i = (szs ! i, spacing ! i, 1)" using i len by simp
  then have bad: "new_spacing_axis (?zs ! i) = Inl ZeroDivisionError"
    by (simp add: new_spacing_axis_def)
  have only: "\<forall>y \<in> set ?zs. \<forall>e'. new_spacing_axis y = Inl e' \<longrightarrow> e' = ZeroDivisionError"
    using new_spacing_axis_only_error by blast
  show ?thesis
    unfolding new_spacing_list_def by (rule comprehension_raises [OF mem bad only])
qed

lemma new_spacing_list_ok:
  assumes len: "length spacing = length szs" "length ns = length szs"
    and no_one: "1 \<notin> set ns"
  shows "new_spacing_list szs spacing ns =
           Inr (map (\<lambda>(original_sz, original_spc, new_sz).
                  (real_of_int (int original_sz - 1) * original_spc) / real_of_int (new_sz - 1))
                (zip szs (zip spacing ns)))"
  unfolding new_spacing_list_def
proof (rule comprehension_map)
  fix t assume "t \<in> set (zip szs (zip spacing ns))"
  then have "snd (snd t) \<in> set ns"
    by (metis in_set_zipE prod.collapse)
  then have "snd (snd t) \<noteq> 1" using no_one by auto
  then show "new_spacing_axis t = Inr ((\<lambda>(original_sz, original_spc, new_sz).
                  (real_of_int (int original_sz - 1) * original_spc) / real_of_int (new_sz - 1)) t)"
    by (cases t) (simp add: new_spacing_axis_def)
qed

subsection \<open>The pyramid\<close>

lemma fst_bind_io:
  "fst (bind_io m k) = fst m @ (case snd m of Inl e \<Rightarrow> [] | Inr x \<Rightarrow> fst (k x))"
  by (cases "snd m") (simp_all add: bind_io_def)

lemma smoothed_inputs_append [simp]:
  "smoothed_inputs (a @ b) = smoothed_inputs a @ smoothed_inputs b"
  by (induction a rule: smoothed_inputs.induct) simp_all

lemma executed_levels_append [simp]:
  "executed_levels (a @ b) = executed_levels a @ executed_levels b"
  by (induction a rule: executed_levels.induct) simp_all

lemma resample_targets_append [simp]:
  "resample_targets (a @ b) = resample_targets a @ resample_targets b"
  by (induction a rule: resample_targets.induct) simp_all

lemma pyramid_loop_Inr:
  assumes "snd (pyramid_loop lib ds (f0 # fs) (m0 # ms)) = Inr (fi, mi)"
  shows "\<exists>fl ml. fi = f0 # fs @ fl \<and> mi = m0 # ms @ ml
           \<and> list_all2 (\<lambda>d l. snd (smooth_and_resample lib f0 (fst d) (snd d)) = Inr l) ds fl
           \<and> list_all2 (\<lambda>d l. snd (smooth_and_resample lib m0 (fst d) (snd d)) = Inr l) ds ml"
  using assms
proof (induction ds arbitrary: fs ms)
  case Nil
  then show ?case by (simp add: return_io_def)
next
  case (Cons d ds)
  obtain sf sg where d: "d = (sf, sg)" by (cases d)
  from Cons.prems have "snd (pyramid_loop lib ((sf, sg) # ds) (f0 # fs) (m0 # ms)) = Inr (fi, mi)"
    by (simp only: d)
  then obtain fl0 ml0 where
    rf: "snd (smooth_and_resample lib f0 sf sg) = Inr fl0"
    and rm: "snd (smooth_and_resample lib m0 sf sg) = Inr ml0"
    and rest: "snd (pyramid_loop lib ds (f0 # (fs @ [fl0])) (m0 # (ms @ [ml0]))) = Inr (fi, mi)"
    unfolding pyramid_loop.simps snd_bind_io_Inr
    by (auto simp: index_first_def lift_io_def)
  from Cons.IH [OF rest] obtain fl ml where
    "fi = f0 # (fs @ [fl0]) @ fl" "mi = m0 # (ms @ [ml0]) @ ml"
    "list_all2 (\<lambda>d l. snd (smooth_and_resample lib f0 (fst d) (snd d)) = Inr l) ds fl"
    "list_all2 (\<lambda>d l. snd (smooth_and_resample lib m0 (fst d) (snd d)) = Inr l) ds ml"
    by blast
  then show ?case
    unfolding d
    by (intro exI [of _ "fl0 # fl"] exI [of _ "ml0 # ml"]) (simp add: rf rm)
qed

lemma pyramid_loop_smoothed_inputs:
  "set (smoothed_inputs (fst (pyramid_loop lib ds (f0 # fs) (m0 # ms)))) \<subseteq> {f0, m0}"
proof (induction ds arbitrary: fs ms)
  case Nil
  then show ?case by (simp add: return_io_def)
next
  case (Cons d ds)
  obtain sf sg where d: "d = (sf, sg)" by (cases d)
  have IH: "set (smoothed_inputs (fst (pyramid_loop lib ds (f0 # fs') (m0 # ms')))) \<subseteq> {f0, m0}"
    for fs' ms' by (rule Cons.IH)
  show ?case
    unfolding d pyramid_loop.simps
    using IH
    by (auto simp: fst_bind_io index_first_def lift_io_def smoothed_inputs_smooth_and_resample
        split: sum.splits)
qed

lemma create_image_pyramid_Inr:
  assumes "snd (create_image_pyramid lib fixed_image moving_image shrink_factors smoothing_sigmas)
             = Inr (fi, mi)"
  shows "\<exists>fl ml. fi = fixed_image # fl \<and> mi = moving_image # ml
           \<and> list_all2 (\<lambda>d l. snd (smooth_and_resample lib fixed_image (fst d) (snd d)) = Inr l)
                (rev (descriptors shrink_factors smoothing_sigmas)) fl
           \<and> list_all2 (\<lambda>d l. snd (smooth_and_resample lib moving_image (fst d) (snd d)) = Inr l)
                (rev (descriptors shrink_factors smoothing_sigmas)) ml"
proof (cases shrink_factors)
  case None
  then show ?thesis using assms by (simp add: create_image_pyramid_def descriptors_def return_io_def)
next
  case (Some sfs)
  show ?thesis
  proof (cases sfs)
    case Nil
    then show ?thesis using assms Some
      by (simp add: create_image_pyramid_def descriptors_def return_io_def split: option.splits)
  next
    case (Cons a list)
    show ?thesis
    proof (cases smoothing_sigmas)
      case None
      then show ?thesis using assms Some Cons
        by (simp add: create_image_pyramid_def lift_io_def)
    next
      case sgs: (Some sgs)
      have "snd (pyramid_loop lib (rev (zip sfs sgs)) [fixed_image] [moving_image]) = Inr (fi, mi)"
        using assms Some Cons sgs by (simp add: create_image_pyramid_def)
      from pyramid_loop_Inr [OF this] show ?thesis
        using Some sgs by (simp add: descriptors_def)
    qed
  qed
qed

lemma create_image_pyramid_smoothed_inputs:
  "set (smoothed_inputs (fst (create_image_pyramid lib fixed_image moving_image shrink_factors
          smoothing_sigmas))) \<subseteq> {fixed_image, moving_image}"
proof -
  have "set (smoothed_inputs (fst (pyramid_loop lib ds [fixed_image] [moving_image])))
          \<subseteq> {fixed_image, moving_image}" for ds
    by (rule pyramid_loop_smoothed_inputs)
  then show ?thesis
    by (simp add: create_image_pyramid_def return_io_def lift_io_def
        split: option.splits list.splits)
qed

lemma list_all2_rev_nth:
  assumes "list_all2 P (rev ds) ls" and "i < length ds"
  shows "P (ds ! i) ((x # ls) ! (length ds - i))"
proof -
  let ?j = "length ds - i - 1"
  have j: "?j < length (rev ds)" using assms(2) by simp
  have "P (rev ds ! ?j) (ls ! ?j)"
    using list_all2_nthD [OF assms(1) j] .
  moreover have "rev ds ! ?j = ds ! i"
    using assms(2) by (simp add: rev_nth)
  moreover have "(x # ls) ! (length ds - i) = ls ! ?j"
    using assms(2) by (simp add: nth_Cons')
  ultimately show ?thesis by simp
qed

lemma zip_take_min:
  "zip (take (min (length xs) (length ys)) xs) (take (min (length xs) (length ys)) ys) = zip xs ys"
proof -
  have "zip (take (min (length xs) (length ys)) xs) (take (min (length xs) (length ys)) ys)
          = take (length (zip xs ys)) (zip xs ys)"
    by (simp add: take_zip)
  then show ?thesis by simp
qed

lemma create_image_pyramid_Some_Some:
  "create_image_pyramid lib fixed_image moving_image (Some sfs) (Some sgs)
     = pyramid_loop lib (rev (zip sfs sgs)) [fixed_image] [moving_image]"
  by (cases sfs) (simp_all add: create_image_pyramid_def)

lemma pyramid_loop_succeeds:
  assumes "list_all2 (\<lambda>d l. snd (smooth_and_resample lib f0 (fst d) (snd d)) = Inr l) ds fl"
    and "list_all2 (\<lambda>d l. snd (smooth_and_resample lib m0 (fst d) (snd d)) = Inr l) ds ml"
  shows "snd (pyramid_loop lib ds (f0 # fs) (m0 # ms)) = Inr (f0 # fs @ fl, m0 # ms @ ml)"
  using assms
proof (induction ds arbitrary: fs ms fl ml)
  case Nil
  then show ?case by (simp add: return_io_def)
next
  case (Cons d ds)
  obtain sf sg where d: "d = (sf, sg)" by (cases d)
  from Cons.prems(1) obtain fl0 fl' where fl: "fl = fl0 # fl'"
    and f0: "snd (smooth_and_resample lib f0 sf sg) = Inr fl0"
    and fl': "list_all2 (\<lambda>d l. snd (smooth_and_resample lib f0 (fst d) (snd d)) = Inr l) ds fl'"
    unfolding d by (auto simp: list_all2_Cons1)
  from Cons.prems(2) obtain ml0 ml' where ml: "ml = ml0 # ml'"
    and m0: "snd (smooth_and_resample lib m0 sf sg) = Inr ml0"
    and ml': "list_all2 (\<lambda>d l. snd (smooth_and_resample lib m0 (fst d) (snd d)) = Inr l) ds ml'"
    unfolding d by (auto simp: list_all2_Cons1)
  have "snd (pyramid_loop lib ds (f0 # (fs @ [fl0])) (m0 # (ms @ [ml0])))
          = Inr (f0 # (fs @ [fl0]) @ fl', m0 # (ms @ [ml0]) @ ml')"
    by (rule Cons.IH [OF fl' ml'])
  then show ?case
    unfolding d fl ml pyramid_loop.simps snd_bind_io_Inr
    using f0 m0 by (simp add: index_first_def lift_io_def)
qed

text \<open>
  With shrink factors supplied in decreasing order, as the notebook supplies them, a level
  supplied earlier is no larger on any axis than a level supplied later.
\<close>

lemma level_size:
  assumes contract: "Resample_on_requested_grid lib"
    and pos: "0 < shrink_factor"
    and run: "snd (smooth_and_resample lib img shrink_factor smoothing_sigma) = Inr out"
  shows "map int (GetSize out) = map (\<lambda>sz. \<lfloor>real sz / shrink_factor + 1 / 2\<rfloor>) (GetSize img)"
proof -
  have "new_size_list (GetSize img) shrink_factor
          = Inr (map (\<lambda>sz. \<lfloor>real sz / shrink_factor + 1 / 2\<rfloor>) (GetSize img))"
    unfolding new_size_list_def
    by (rule comprehension_map) (rule new_size_axis_pos [OF pos])
  with smooth_and_resample_Inr [OF run] obtain smoothed nsp where
    "Resample lib smoothed (map (\<lambda>sz. \<lfloor>real sz / shrink_factor + 1 / 2\<rfloor>) (GetSize img))
       sitkLinear (GetOrigin img) nsp (GetDirection img) 0 (GetPixelID img) = Inr out"
    by auto
  with contract show ?thesis
    unfolding Resample_on_requested_grid_def by blast
qed

lemma coarser_level_is_smaller:
  assumes contract: "Resample_on_requested_grid lib"
    and order: "0 < finer" "finer \<le> coarser"
    and coarse: "snd (smooth_and_resample lib img coarser sigma_c) = Inr coarse_level"
    and fine: "snd (smooth_and_resample lib img finer sigma_f) = Inr fine_level"
  shows "list_all2 (\<le>) (GetSize coarse_level) (GetSize fine_level)"
proof -
  have pos: "0 < coarser" using order by simp
  have c: "map int (GetSize coarse_level)
             = map (\<lambda>sz. \<lfloor>real sz / coarser + 1 / 2\<rfloor>) (GetSize img)"
    by (rule level_size [OF contract pos coarse])
  have f: "map int (GetSize fine_level)
             = map (\<lambda>sz. \<lfloor>real sz / finer + 1 / 2\<rfloor>) (GetSize img)"
    by (rule level_size [OF contract order(1) fine])
  have le: "\<lfloor>real sz / coarser + 1 / 2\<rfloor> \<le> \<lfloor>real sz / finer + 1 / 2\<rfloor>" for sz :: nat
  proof -
    have "real sz / coarser \<le> real sz / finer"
      using order by (simp add: frac_le)
    then show ?thesis by (intro floor_mono) simp
  qed
  have "list_all2 (\<le>) (map int (GetSize coarse_level)) (map int (GetSize fine_level))"
    unfolding c f by (simp add: list_all2_conv_all_nth le)
  then have "list_all2 (\<lambda>a b. int a \<le> int b) (GetSize coarse_level) (GetSize fine_level)"
    by (simp add: list_all2_map1 list_all2_map2)
  then show ?thesis by simp
qed

lemma no_finer_refl [simp]: "no_finer a a"
  by (simp add: no_finer_def list_all2_refl)

lemma level_no_finer_than_original:
  assumes contract: "Resample_on_requested_grid lib"
    and factor: "1 \<le> shrink_factor"
    and run: "snd (smooth_and_resample lib img shrink_factor smoothing_sigma) = Inr level"
  shows "no_finer level img"
proof -
  have pos: "0 < shrink_factor" using factor by simp
  have sz: "map int (GetSize level)
             = map (\<lambda>sz. \<lfloor>real sz / shrink_factor + 1 / 2\<rfloor>) (GetSize img)"
    by (rule level_size [OF contract pos run])
  have le: "\<lfloor>real n / shrink_factor + 1 / 2\<rfloor> \<le> int n" for n :: nat
  proof -
    have "real n / shrink_factor \<le> real n"
      using factor by (simp add: field_simps mult_le_cancel_right1 mult_le_cancel_left1)
    then have "real n / shrink_factor + 1 / 2 < real n + 1" by simp
    then show ?thesis by (simp add: floor_le_iff)
  qed
  have "list_all2 (\<le>) (map int (GetSize level)) (map int (GetSize img))"
    unfolding sz by (simp add: list_all2_conv_all_nth le)
  then have "list_all2 (\<lambda>a b. int a \<le> int b) (GetSize level) (GetSize img)"
    by (simp add: list_all2_map1 list_all2_map2)
  then show ?thesis by (simp add: no_finer_def)
qed

lemma levels_coarse_to_fine:
  assumes contract: "Resample_on_requested_grid lib"
    and levels: "list_all2 (\<lambda>d l. snd (smooth_and_resample lib img (fst d) (snd d)) = Inr l) ds ls"
    and ordered: "sorted_wrt (\<ge>) (map fst ds)"
    and factors: "\<forall>d \<in> set ds. 1 \<le> fst d"
  shows "sorted_wrt no_finer (ls @ [img])"
proof -
  have len: "length ls = length ds" using levels by (auto dest: list_all2_lengthD)
  have level: "snd (smooth_and_resample lib img (fst (ds ! i)) (snd (ds ! i))) = Inr (ls ! i)"
    if "i < length ds" for i
    using list_all2_nthD [OF levels that] .
  have one: "1 \<le> fst (ds ! i)" if "i < length ds" for i
    using factors that by simp
  have among: "no_finer (ls ! i) (ls ! j)" if "i < j" "j < length ls" for i j
  proof -
    have i: "i < length ds" and j: "j < length ds" using that len by simp_all
    have "fst (ds ! j) \<le> fst (ds ! i)"
      using sorted_wrt_nth_less [OF ordered, of i j] that i j by simp
    moreover have "0 < fst (ds ! j)" using one [OF j] by simp
    ultimately have "list_all2 (\<le>) (GetSize (ls ! i)) (GetSize (ls ! j))"
      using level [OF i] level [OF j] by (intro coarser_level_is_smaller [OF contract])
    then show ?thesis by (simp add: no_finer_def)
  qed
  have below: "no_finer l img" if "l \<in> set ls" for l
  proof -
    from that obtain i where i: "i < length ls" "l = ls ! i"
      by (auto simp: in_set_conv_nth)
    then have "i < length ds" using len by simp
    from level_no_finer_than_original [OF contract one [OF this] level [OF this]]
    show ?thesis using i by simp
  qed
  have "sorted_wrt no_finer ls"
    using among by (simp add: sorted_wrt_iff_nth_less)
  then show ?thesis
    using below by (simp add: sorted_wrt_append)
qed

lemma pyramid_in_supply_order:
  assumes "snd (create_image_pyramid lib fixed_image moving_image shrink_factors smoothing_sigmas)
             = Inr (fixed_images, moving_images)"
  shows "\<exists>fls mls.
           rev fixed_images = fls @ [fixed_image] \<and> rev moving_images = mls @ [moving_image]
         \<and> rev (zip fixed_images moving_images) = zip fls mls @ [(fixed_image, moving_image)]
         \<and> list_all2 (\<lambda>d l. snd (smooth_and_resample lib fixed_image (fst d) (snd d)) = Inr l)
              (descriptors shrink_factors smoothing_sigmas) fls
         \<and> list_all2 (\<lambda>d l. snd (smooth_and_resample lib moving_image (fst d) (snd d)) = Inr l)
              (descriptors shrink_factors smoothing_sigmas) mls"
proof -
  let ?ds = "descriptors shrink_factors smoothing_sigmas"
  from create_image_pyramid_Inr [OF assms] obtain fl ml where
    fi: "fixed_images = fixed_image # fl" and mi: "moving_images = moving_image # ml"
    and fl: "list_all2 (\<lambda>d l. snd (smooth_and_resample lib fixed_image (fst d) (snd d)) = Inr l)
               (rev ?ds) fl"
    and ml: "list_all2 (\<lambda>d l. snd (smooth_and_resample lib moving_image (fst d) (snd d)) = Inr l)
               (rev ?ds) ml"
    by blast
  have "length (rev ?ds) = length fl"
    using fl by (rule list_all2_lengthD)
  moreover have "length (rev ?ds) = length ml"
    using ml by (rule list_all2_lengthD)
  ultimately have len: "length fl = length ml" by simp
  have "list_all2 (\<lambda>d l. snd (smooth_and_resample lib fixed_image (fst d) (snd d)) = Inr l)
          (rev (rev ?ds)) (rev fl)"
    using fl by (simp only: list_all2_rev)
  moreover have "list_all2 (\<lambda>d l. snd (smooth_and_resample lib moving_image (fst d) (snd d)) = Inr l)
          (rev (rev ?ds)) (rev ml)"
    using ml by (simp only: list_all2_rev)
  moreover have "rev (zip fixed_images moving_images)
                   = zip (rev fl) (rev ml) @ [(fixed_image, moving_image)]"
    using len unfolding fi mi by (simp add: zip_rev)
  ultimately show ?thesis
    using fi mi by (intro exI [of _ "rev fl"] exI [of _ "rev ml"]) simp
qed

lemma pyramid_coarse_to_fine:
  assumes built: "snd (create_image_pyramid lib fixed_image moving_image shrink_factors
                         smoothing_sigmas) = Inr (fixed_images, moving_images)"
    and contract: "Resample_on_requested_grid lib"
    and ordered: "sorted_wrt (\<ge>) (map fst (descriptors shrink_factors smoothing_sigmas))"
    and factors: "\<forall>d \<in> set (descriptors shrink_factors smoothing_sigmas). 1 \<le> fst d"
  shows "sorted_wrt no_finer (rev fixed_images) \<and> sorted_wrt no_finer (rev moving_images)"
proof -
  from pyramid_in_supply_order [OF built] obtain fls mls where
    "rev fixed_images = fls @ [fixed_image]" "rev moving_images = mls @ [moving_image]"
    "list_all2 (\<lambda>d l. snd (smooth_and_resample lib fixed_image (fst d) (snd d)) = Inr l)
              (descriptors shrink_factors smoothing_sigmas) fls"
    "list_all2 (\<lambda>d l. snd (smooth_and_resample lib moving_image (fst d) (snd d)) = Inr l)
              (descriptors shrink_factors smoothing_sigmas) mls"
    by blast
  then show ?thesis
    using levels_coarse_to_fine [OF contract _ ordered factors] by simp
qed

subsection \<open>The registration loop\<close>

lemma bind_io_return [simp]: "bind_io m return_io = m"
  by (cases m; cases "snd m") (auto simp: bind_io_def return_io_def)

lemma bind_io_return' [simp]: "bind_io m (\<lambda>x. return_io x) = m"
  by (cases m; cases "snd m") (auto simp: bind_io_def return_io_def)

lemma bind_io_cong_Inr:
  "(\<And>x. snd m = Inr x \<Longrightarrow> k x = k' x) \<Longrightarrow> bind_io m k = bind_io m k'"
  by (cases "snd m") (simp_all add: bind_io_def)

lemma bind_call_io_eq_Inr:
  "bind_io (call_io c r) k = (calls, Inr y) \<longleftrightarrow>
     (\<exists>x calls'. r = Inr x \<and> k x = (calls', Inr y) \<and> calls = c # calls')"
proof (cases r)
  case (Inl e)
  then show ?thesis by simp
next
  case (Inr x)
  then show ?thesis by (cases "k x") auto
qed

lemma call_io_eq_Inr:
  "call_io c r = (calls, Inr y) \<longleftrightarrow> r = Inr y \<and> calls = [c]"
  by (auto simp: call_io_def)

lemma index_last_nonempty [simp]: "xs \<noteq> [] \<Longrightarrow> index_last xs = Inr (last xs)"
  by (simp add: index_last_def)

lemma zip_snoc_last:
  assumes "xs \<noteq> []" and "length xs = length ys"
  shows "zip xs ys = zip (butlast xs) (butlast ys) @ [(last xs, last ys)]"
proof -
  have ys: "ys \<noteq> []" using assms by auto
  have "zip (butlast xs @ [last xs]) (butlast ys @ [last ys])
          = zip (butlast xs) (butlast ys) @ zip [last xs] [last ys]"
    using assms(2) by (intro zip_append) simp
  then show ?thesis using assms(1) ys by simp
qed

lemma for_each_level_Cons:
  "for_each_level lib algorithm ((f, m) # rest) current =
     bind_io (call_io (Call_Execute f m current) (algorithm f m current))
       (\<lambda>updated. down_the_pyramid lib algorithm rest updated)"
proof (induction rest arbitrary: f m current)
  case Nil
  show ?case by simp
next
  case (Cons level rest)
  obtain f' m' where level: "level = (f', m')" by (cases level)
  have IH: "for_each_level lib algorithm ((f', m') # rest) =
      (\<lambda>resampled. bind_io (call_io (Call_Execute f' m' resampled) (algorithm f' m' resampled))
         (\<lambda>updated. down_the_pyramid lib algorithm rest updated))"
    by (rule ext) (rule Cons.IH)
  show ?case
    unfolding level by (simp add: IH)
qed

lemma run_the_registration_for_each_level:
  assumes "fixed_images \<noteq> []" and "length fixed_images = length moving_images"
  shows "run_the_registration lib algorithm fixed_images moving_images current =
           for_each_level lib algorithm (rev (zip fixed_images moving_images)) current"
proof -
  have m: "moving_images \<noteq> []" using assms by auto
  have "rev (zip fixed_images moving_images)
          = (last fixed_images, last moving_images)
              # rev (zip (butlast fixed_images) (butlast moving_images))"
    using zip_snoc_last [OF assms] by simp
  then show ?thesis
    using assms(1) m by (simp add: run_the_registration_def for_each_level_Cons)
qed

lemma for_each_level_log:
  assumes "for_each_level lib algorithm levels current = (calls, Inr final)"
  shows "executed_levels calls = levels \<and> resample_targets calls = map fst (tl levels)
       \<and> smoothed_inputs calls = [] \<and> length calls = 2 * length levels - 1
       \<and> (levels \<noteq> [] \<longrightarrow> (\<exists>d. last calls = Call_Execute (fst (last levels)) (snd (last levels)) d
                \<and> algorithm (fst (last levels)) (snd (last levels)) d = Inr final))"
  using assms
proof (induction lib algorithm levels current arbitrary: calls rule: for_each_level.induct)
  case (1 lib algorithm current)
  then show ?case by (simp add: return_io_def)
next
  case (2 lib algorithm fixed_level moving_level current)
  then show ?case by (auto simp: call_io_eq_Inr)
next
  case (3 lib algorithm fixed_level moving_level next_fixed next_moving finer current)
  from "3.prems" obtain updated resampled calls' where
    exec: "algorithm fixed_level moving_level current = Inr updated"
    and res: "ResampleToReference lib updated next_fixed = Inr resampled"
    and rest: "for_each_level lib algorithm ((next_fixed, next_moving) # finer) resampled
                 = (calls', Inr final)"
    and calls: "calls = Call_Execute fixed_level moving_level current
                # Call_ResampleToReference updated next_fixed # calls'"
    unfolding for_each_level.simps bind_call_io_eq_Inr by blast
  from "3.IH" [OF rest] have
    IH: "executed_levels calls' = (next_fixed, next_moving) # finer"
      "resample_targets calls' = map fst finer"
      "smoothed_inputs calls' = []"
      "length calls' = 2 * length ((next_fixed, next_moving) # finer) - 1"
      "\<exists>d. last calls' = Call_Execute (fst (last ((next_fixed, next_moving) # finer)))
                (snd (last ((next_fixed, next_moving) # finer))) d
           \<and> algorithm (fst (last ((next_fixed, next_moving) # finer)))
                (snd (last ((next_fixed, next_moving) # finer))) d = Inr final"
    by simp_all
  have "calls' \<noteq> []" using IH(4) by auto
  then show ?case
    using IH unfolding calls by simp
qed


lemma zero_field_created:
  "CopyInformation (Image (GetWidth ref) (GetHeight ref) (GetDepth ref) sitkVectorFloat64) ref =
     (if length (GetSize ref) = 2 \<or> (length (GetSize ref) = 3 \<and> GetDepth ref \<noteq> 0)
      then Inr (zero_displacement_field ref) else Inl (RuntimeError 0))"
proof -
  consider (short) "length (GetSize ref) < 2"
    | (two) w h where "GetSize ref = [w, h]"
    | (three) w h d where "GetSize ref = [w, h, d]"
    | (more) w h d e rest where "GetSize ref = w # h # d # e # rest"
  proof (cases "GetSize ref")
    case Nil
    then show ?thesis using short by simp
  next
    case c1: (Cons w r1)
    show ?thesis
    proof (cases r1)
      case Nil
      then show ?thesis using short c1 by simp
    next
      case c2: (Cons h r2)
      show ?thesis
      proof (cases r2)
        case Nil
        then show ?thesis using two c1 c2 by simp
      next
        case c3: (Cons d r3)
        show ?thesis
        proof (cases r3)
          case Nil
          then show ?thesis using three c1 c2 c3 by simp
        next
          case (Cons e r4)
          then show ?thesis using more c1 c2 c3 by simp
        qed
      qed
    qed
  qed
  then show ?thesis
  proof cases
    case short
    have "GetSize (Image w h d p) \<noteq> GetSize ref" for w h d p
    proof
      assume "GetSize (Image w h d p) = GetSize ref"
      then have "length (GetSize (Image w h d p)) = length (GetSize ref)" by simp
      then show False using short by (simp add: Image_def Let_def split: if_splits)
    qed
    then show ?thesis
      using short by (simp add: CopyInformation_def)
  next
    case two
    then show ?thesis
      by (simp add: CopyInformation_def Image_def GetWidth_def GetHeight_def GetDepth_def
          zero_displacement_field_def)
  next
    case three
    then show ?thesis
      by (simp add: CopyInformation_def Image_def GetWidth_def GetHeight_def GetDepth_def
          zero_displacement_field_def)
  next
    case more
    then show ?thesis
      by (simp add: CopyInformation_def Image_def Let_def)
  qed
qed

lemma create_image_pyramid_shape:
  assumes "snd (create_image_pyramid lib fixed_image moving_image shrink_factors smoothing_sigmas)
             = Inr (fixed_images, moving_images)"
  shows "fixed_images \<noteq> [] \<and> length fixed_images = length moving_images"
proof -
  let ?ds = "rev (descriptors shrink_factors smoothing_sigmas)"
  from create_image_pyramid_Inr [OF assms] obtain fl ml where
    fi: "fixed_images = fixed_image # fl" and mi: "moving_images = moving_image # ml"
    and fl: "list_all2 (\<lambda>d l. snd (smooth_and_resample lib fixed_image (fst d) (snd d)) = Inr l) ?ds fl"
    and ml: "list_all2 (\<lambda>d l. snd (smooth_and_resample lib moving_image (fst d) (snd d)) = Inr l) ?ds ml"
    by blast
  have "length fl = length ?ds" "length ml = length ?ds"
    using fl ml by (auto dest: list_all2_lengthD)
  then show ?thesis using fi mi by simp
qed

lemma create_image_pyramid_last:
  assumes "snd (create_image_pyramid lib fixed_image moving_image shrink_factors smoothing_sigmas)
             = Inr (fixed_images, moving_images)"
  shows "(descriptors shrink_factors smoothing_sigmas = [] \<longrightarrow> last fixed_images = fixed_image)
       \<and> (descriptors shrink_factors smoothing_sigmas \<noteq> [] \<longrightarrow>
            snd (smooth_and_resample lib fixed_image
                   (fst (hd (descriptors shrink_factors smoothing_sigmas)))
                   (snd (hd (descriptors shrink_factors smoothing_sigmas))))
              = Inr (last fixed_images))"
proof -
  let ?ds = "descriptors shrink_factors smoothing_sigmas"
  from create_image_pyramid_Inr [OF assms] obtain fl where
    fi: "fixed_images = fixed_image # fl"
    and fl: "list_all2 (\<lambda>d l. snd (smooth_and_resample lib fixed_image (fst d) (snd d)) = Inr l)
               (rev ?ds) fl"
    by blast
  have len: "length fl = length ?ds" using fl by (auto dest: list_all2_lengthD)
  have "last fixed_images = fixed_image" if "?ds = []"
    using that fi len by simp
  moreover have "snd (smooth_and_resample lib fixed_image (fst (hd ?ds)) (snd (hd ?ds)))
              = Inr (last fixed_images)" if ne: "?ds \<noteq> []"
  proof -
    have "0 < length ?ds" using ne by simp
    from list_all2_rev_nth [OF fl this, of fixed_image]
    have "snd (smooth_and_resample lib fixed_image (fst (?ds ! 0)) (snd (?ds ! 0)))
            = Inr ((fixed_image # fl) ! length ?ds)" by simp
    moreover have "(fixed_image # fl) ! length ?ds = last (fixed_image # fl)"
      using len by (metis last_conv_nth length_Cons diff_Suc_1 list.distinct(1))
    moreover have "?ds ! 0 = hd ?ds" using ne by (simp add: hd_conv_nth)
    ultimately show ?thesis using fi by simp
  qed
  ultimately show ?thesis by blast
qed

lemma never_failing_for_each_level:
  assumes "\<And>f m d. \<exists>u. algorithm f m d = Inr u"
    and "\<And>d f. \<exists>r. ResampleToReference lib d f = Inr r"
  shows "\<exists>calls final. for_each_level lib algorithm levels current = (calls, Inr final)"
  using assms
proof (induction lib algorithm levels current rule: for_each_level.induct)
  case (1 lib algorithm current)
  show ?case by (simp add: return_io_def)
next
  case (2 lib algorithm fixed_level moving_level current)
  from "2.prems"(1) [of fixed_level moving_level current] show ?case
    by (auto simp: call_io_def)
next
  case (3 lib algorithm fixed_level moving_level next_fixed next_moving finer current)
  from "3.prems"(1) obtain updated where
    u: "algorithm fixed_level moving_level current = Inr updated" by blast
  from "3.prems"(2) obtain resampled where
    r: "ResampleToReference lib updated next_fixed = Inr resampled" by blast
  from "3.IH" [OF "3.prems"] obtain calls final where
    "for_each_level lib algorithm ((next_fixed, next_moving) # finer) resampled
       = (calls, Inr final)" by blast
  then show ?case
    by (simp add: u r)
qed

lemma bind_io_eq_Inr:
  "bind_io m k = (calls, Inr y) \<longleftrightarrow>
     (\<exists>before x after. m = (before, Inr x) \<and> k x = (after, Inr y) \<and> calls = before @ after)"
proof (cases m)
  case (Pair before r)
  show ?thesis
  proof (cases r)
    case (Inl e)
    then show ?thesis using Pair by simp
  next
    case (Inr x)
    then show ?thesis using Pair by (cases "k x") auto
  qed
qed

lemma smooth_and_resample_calls:
  "executed_levels (fst (smooth_and_resample lib img sf sg)) = []
   \<and> resample_targets (fst (smooth_and_resample lib img sf sg)) = []"
proof (cases "SmoothingRecursiveGaussian lib img sg")
  case (Inl e)
  then show ?thesis by (simp add: smooth_and_resample_smoothing_fails)
next
  case smoothed: (Inr smoothed)
  show ?thesis
  proof (cases "new_size_list (GetSize img) sf")
    case (Inl e)
    then show ?thesis using smoothed by (simp add: smooth_and_resample_size_fails)
  next
    case ns: (Inr ns)
    show ?thesis
    proof (cases "new_spacing_list (GetSize img) (GetSpacing img) ns")
      case (Inl e)
      then show ?thesis using smoothed ns by (simp add: smooth_and_resample_spacing_fails)
    next
      case (Inr nsp)
      then show ?thesis using smoothed ns by (simp add: smooth_and_resample_resamples)
    qed
  qed
qed

lemma pyramid_loop_calls:
  "executed_levels (fst (pyramid_loop lib ds fs ms)) = []
   \<and> resample_targets (fst (pyramid_loop lib ds fs ms)) = []"
proof (induction ds arbitrary: fs ms)
  case Nil
  then show ?case by (simp add: return_io_def)
next
  case (Cons d ds)
  obtain sf sg where d: "d = (sf, sg)" by (cases d)
  have IH: "executed_levels (fst (pyramid_loop lib ds fs' ms')) = []"
    "resample_targets (fst (pyramid_loop lib ds fs' ms')) = []" for fs' ms'
    using Cons.IH by simp_all
  show ?case
    unfolding d pyramid_loop.simps
    by (simp add: fst_bind_io IH smooth_and_resample_calls lift_io_def split: sum.splits)
qed

lemma create_image_pyramid_calls:
  "executed_levels (fst (create_image_pyramid lib fixed_image moving_image shrink_factors
      smoothing_sigmas)) = []
   \<and> resample_targets (fst (create_image_pyramid lib fixed_image moving_image shrink_factors
      smoothing_sigmas)) = []"
  by (simp add: create_image_pyramid_def return_io_def lift_io_def pyramid_loop_calls
      split: option.splits list.splits)

lemma create_initial_displacement_field_calls:
  "executed_levels (fst (create_initial_displacement_field lib initial_transform fixed_images)) = []
   \<and> resample_targets (fst (create_initial_displacement_field lib initial_transform fixed_images)) = []
   \<and> smoothed_inputs (fst (create_initial_displacement_field lib initial_transform fixed_images)) = []"
  by (simp add: create_initial_displacement_field_def fst_bind_io lift_io_def call_io_def
      split: sum.splits option.splits)

lemma multiscale_demons_for_each_level:
  "multiscale_demons lib registration_algorithm fixed_image moving_image initial_transform
       shrink_factors smoothing_sigmas
     = bind_io (create_image_pyramid lib fixed_image moving_image shrink_factors smoothing_sigmas)
         (\<lambda>pyramid.
       bind_io (create_initial_displacement_field lib initial_transform (fst pyramid))
         (\<lambda>initial_displacement_field.
       bind_io (for_each_level lib registration_algorithm (rev (zip (fst pyramid) (snd pyramid)))
                  initial_displacement_field) (\<lambda>final_displacement_field.
       return_io (DisplacementFieldTransform final_displacement_field))))"
proof -
  have body: "(case pyramid of (fixed_images, moving_images) \<Rightarrow>
       bind_io (create_initial_displacement_field lib initial_transform fixed_images)
         (\<lambda>initial_displacement_field.
       bind_io (run_the_registration lib registration_algorithm fixed_images moving_images
                  initial_displacement_field) (\<lambda>final_displacement_field.
       return_io (DisplacementFieldTransform final_displacement_field))))
     = bind_io (create_initial_displacement_field lib initial_transform (fst pyramid))
         (\<lambda>initial_displacement_field.
       bind_io (for_each_level lib registration_algorithm (rev (zip (fst pyramid) (snd pyramid)))
                  initial_displacement_field) (\<lambda>final_displacement_field.
       return_io (DisplacementFieldTransform final_displacement_field)))"
    if "snd (create_image_pyramid lib fixed_image moving_image shrink_factors smoothing_sigmas)
          = Inr pyramid" for pyramid
  proof -
    obtain fixed_images moving_images where p: "pyramid = (fixed_images, moving_images)"
      by (cases pyramid)
    from that have "fixed_images \<noteq> [] \<and> length fixed_images = length moving_images"
      unfolding p by (rule create_image_pyramid_shape)
    then show ?thesis
      unfolding p by (simp add: run_the_registration_for_each_level)
  qed
  show ?thesis
    unfolding multiscale_demons_def
    by (rule bind_io_cong_Inr) (rule body)
qed

lemma multiscale_demons_returns:
  assumes returns: "multiscale_demons lib registration_algorithm fixed_image moving_image
           initial_transform shrink_factors smoothing_sigmas = (calls, Inr result)"
  shows "\<exists>fixed_images moving_images final d.
               snd (create_image_pyramid lib fixed_image moving_image shrink_factors
                      smoothing_sigmas) = Inr (fixed_images, moving_images)
             \<and> executed_levels calls = rev (zip fixed_images moving_images)
             \<and> resample_targets calls = tl (rev fixed_images)
             \<and> last calls = Call_Execute fixed_image moving_image d
             \<and> registration_algorithm fixed_image moving_image d = Inr final
             \<and> result = DisplacementFieldTransform final"
proof -
  from returns [unfolded multiscale_demons_for_each_level bind_io_eq_Inr] obtain cp pyramid ci field cl final where
    pyr: "create_image_pyramid lib fixed_image moving_image shrink_factors smoothing_sigmas
            = (cp, Inr pyramid)"
    and init: "create_initial_displacement_field lib initial_transform (fst pyramid)
            = (ci, Inr field)"
    and loop: "for_each_level lib registration_algorithm (rev (zip (fst pyramid) (snd pyramid)))
            field = (cl, Inr final)"
    and result: "result = DisplacementFieldTransform final"
    and calls: "calls = cp @ ci @ cl"
    by (auto simp: return_io_def)
  obtain fixed_images moving_images where p: "pyramid = (fixed_images, moving_images)"
    by (cases pyramid)
  have built: "snd (create_image_pyramid lib fixed_image moving_image shrink_factors
                      smoothing_sigmas) = Inr (fixed_images, moving_images)"
    using pyr p by simp
  from create_image_pyramid_Inr [OF built] obtain fl ml where
    fi: "fixed_images = fixed_image # fl" and mi: "moving_images = moving_image # ml"
    by blast
  have shape: "fixed_images \<noteq> []" "length fixed_images = length moving_images"
    using create_image_pyramid_shape [OF built] by simp_all
  let ?levels = "rev (zip fixed_images moving_images)"
  have levels: "?levels \<noteq> []" using fi mi by simp
  have last_level: "last ?levels = (fixed_image, moving_image)"
    using fi mi by (simp add: last_rev)
  from for_each_level_log [OF loop [unfolded p fst_conv snd_conv]] levels have log:
    "executed_levels cl = ?levels" "resample_targets cl = map fst (tl ?levels)"
    "length cl = 2 * length ?levels - 1"
    "\<exists>d. last cl = Call_Execute (fst (last ?levels)) (snd (last ?levels)) d
         \<and> registration_algorithm (fst (last ?levels)) (snd (last ?levels)) d = Inr final"
    by simp_all
  have cl: "cl \<noteq> []" using log(3) levels by (cases ?levels) auto
  have "map fst (tl ?levels) = tl (rev fixed_images)"
    using shape(2) by (simp add: map_tl flip: rev_map)
  moreover have "executed_levels cp = []" "resample_targets cp = []"
    using create_image_pyramid_calls [of lib fixed_image moving_image shrink_factors
        smoothing_sigmas] pyr by simp_all
  moreover have "executed_levels ci = []" "resample_targets ci = []"
    using create_initial_displacement_field_calls [of lib initial_transform "fst pyramid"] init
    by simp_all
  ultimately show ?thesis
    using built log(1,2,4) cl result unfolding calls last_level by auto
qed
lemma sorted_wrt_hd:
  assumes "sorted_wrt P xs" and "\<And>x. P x x"
  shows "\<forall>x \<in> set xs. P (hd xs) x"
  using assms by (cases xs) auto

subsection \<open>The stand-in library\<close>

lemma mock_sitk_simps [simp]:
  "SmoothingRecursiveGaussian mock_sitk img sigma = Inr img"
  "Resample mock_sitk img new_size interp origin new_spacing direction default_value pixelID =
     (if list_all (\<lambda>n. 0 \<le> n) new_size
      then Inr (constant_image (map nat new_size) new_spacing origin direction pixelID [default_value])
      else Inl (RuntimeError 1))"
  "ResampleToReference mock_sitk img reference =
     Inr (constant_image (GetSize reference) (GetSpacing reference) (GetOrigin reference)
            (GetDirection reference) (GetPixelID img) (replicate (length (GetSize reference)) 0))"
  "TransformToDisplacementField mock_sitk t pixelID sz origin spacing direction =
     Inr (constant_image sz spacing origin direction pixelID (replicate (length sz) t))"
  by (simp_all add: mock_sitk_def)

lemma constant_image_simps [simp]:
  "GetSize (constant_image sz spacing origin direction pixelID v) = sz"
  "GetSpacing (constant_image sz spacing origin direction pixelID v) = spacing"
  "GetOrigin (constant_image sz spacing origin direction pixelID v) = origin"
  "GetDirection (constant_image sz spacing origin direction pixelID v) = direction"
  "GetPixelID (constant_image sz spacing origin direction pixelID v) = pixelID"
  "pixels (constant_image sz spacing origin direction pixelID v) = replicate (prod_list sz) v"
  by (simp_all add: constant_image_def)

lemma square_image_simps [simp]:
  "GetSize (square_image n) = [n, n]"
  "GetSpacing (square_image n) = [1, 1]"
  "GetOrigin (square_image n) = [0, 0]"
  "GetDirection (square_image n) = [1, 0, 0, 1]"
  "GetPixelID (square_image n) = sitkFloat32"
  by (simp_all add: square_image_def)

lemma level_by_2_simps [simp]:
  "GetSize level_by_2 = [4, 4]"
  "GetSpacing level_by_2 = [7 / 3, 7 / 3]"
  "GetOrigin level_by_2 = [0, 0]"
  "GetDirection level_by_2 = [1, 0, 0, 1]"
  "GetPixelID level_by_2 = sitkFloat32"
  by (simp_all add: level_by_2_def)

lemma level_by_4_simps [simp]:
  "GetSize level_by_4 = [2, 2]"
  "GetSpacing level_by_4 = [7, 7]"
  "GetOrigin level_by_4 = [0, 0]"
  "GetDirection level_by_4 = [1, 0, 0, 1]"
  "GetPixelID level_by_4 = sitkFloat32"
  by (simp_all add: level_by_4_def)

lemma mock_Resample_on_requested_grid: "Resample_on_requested_grid mock_sitk"
  unfolding Resample_on_requested_grid_def
  by (auto simp: list_all_iff map_idI split: if_splits)

lemma mock_TransformToDisplacementField_on_requested_grid:
  "TransformToDisplacementField_on_requested_grid mock_sitk"
  unfolding TransformToDisplacementField_on_requested_grid_def by auto

lemma mock_level_2:
  "smooth_and_resample mock_sitk (square_image 8) 2 4
      = ([Call_SmoothingRecursiveGaussian (square_image 8) 4,
          Call_Resample (square_image 8) [4, 4] sitkLinear [0, 0] [7 / 3, 7 / 3] [1, 0, 0, 1] 0 sitkFloat32],
         Inr level_by_2)"
  by (simp add: smooth_and_resample_def call_io_def new_size_list_def new_size_axis_def py_int_def
      new_spacing_list_def new_spacing_axis_def level_by_2_def)

lemma mock_level_4:
  "smooth_and_resample mock_sitk (square_image 8) 4 8
      = ([Call_SmoothingRecursiveGaussian (square_image 8) 8,
          Call_Resample (square_image 8) [2, 2] sitkLinear [0, 0] [7, 7] [1, 0, 0, 1] 0 sitkFloat32],
         Inr level_by_4)"
  by (simp add: smooth_and_resample_def call_io_def new_size_list_def new_size_axis_def py_int_def
      new_spacing_list_def new_spacing_axis_def level_by_4_def)

lemma mock_pyramid:
  "create_image_pyramid mock_sitk (square_image 8) (square_image 8) (Some [4, 2]) (Some [8, 4])
     = ([Call_SmoothingRecursiveGaussian (square_image 8) 4,
         Call_Resample (square_image 8) [4, 4] sitkLinear [0, 0] [7 / 3, 7 / 3] [1, 0, 0, 1] 0 sitkFloat32,
         Call_SmoothingRecursiveGaussian (square_image 8) 4,
         Call_Resample (square_image 8) [4, 4] sitkLinear [0, 0] [7 / 3, 7 / 3] [1, 0, 0, 1] 0 sitkFloat32,
         Call_SmoothingRecursiveGaussian (square_image 8) 8,
         Call_Resample (square_image 8) [2, 2] sitkLinear [0, 0] [7, 7] [1, 0, 0, 1] 0 sitkFloat32,
         Call_SmoothingRecursiveGaussian (square_image 8) 8,
         Call_Resample (square_image 8) [2, 2] sitkLinear [0, 0] [7, 7] [1, 0, 0, 1] 0 sitkFloat32],
        Inr ([square_image 8, level_by_2, level_by_4], [square_image 8, level_by_2, level_by_4]))"
  by (simp add: create_image_pyramid_def index_first_def mock_level_2 mock_level_4 return_io_def)

lemma mock_coarsest_is_not_the_input:
  "level_by_4 \<noteq> square_image 8"
proof
  assume "level_by_4 = square_image 8"
  then have "GetSize level_by_4
               = GetSize (square_image 8)" by simp
  then show False by simp
qed

lemma mock_algorithm_zero_field:
  "mock_algorithm (square_image 8) (square_image 8) (zero_displacement_field (square_image 8))
     = Inr (constant_image [8, 8] [1, 1] [0, 0] [1, 0, 0, 1] sitkVectorFloat64 [1, 1])"
  by (simp add: mock_algorithm_def zero_displacement_field_def constant_image_def)

lemma mock_levels:
  "rev (zip [square_image 8, level_by_2, level_by_4]
            [square_image 8, level_by_2, level_by_4])
     = [(level_by_4, level_by_4), (level_by_2, level_by_2), (square_image 8, square_image 8)]"
  by simp

lemma mock_initial_field_None:
  "create_initial_displacement_field mock_sitk None
     [square_image 8, level_by_2, level_by_4]
   = ([], Inr (zero_displacement_field level_by_4))"
  by (simp add: create_initial_displacement_field_def zero_field_created lift_io_def)

lemma mock_initial_field_Some:
  "create_initial_displacement_field mock_sitk (Some 3)
     [square_image 8, level_by_2, level_by_4]
   = ([Call_TransformToDisplacementField 3 sitkVectorFloat64 [2, 2] [0, 0] [7, 7] [1, 0, 0, 1]],
      Inr (constant_image [2, 2] [7, 7] [0, 0] [1, 0, 0, 1] sitkVectorFloat64 [3, 3]))"
  by (simp add: create_initial_displacement_field_def call_io_def)

lemma mock_for_each_level_succeeds:
  "\<exists>calls final. for_each_level mock_sitk mock_algorithm levels current = (calls, Inr final)"
  by (rule never_failing_for_each_level) (simp_all add: mock_algorithm_def)

lemma mock_pyramid_finer_first:
  "create_image_pyramid mock_sitk (square_image 8) (square_image 8) (Some [2, 4]) (Some [4, 8])
     = ([Call_SmoothingRecursiveGaussian (square_image 8) 8,
         Call_Resample (square_image 8) [2, 2] sitkLinear [0, 0] [7, 7] [1, 0, 0, 1] 0 sitkFloat32,
         Call_SmoothingRecursiveGaussian (square_image 8) 8,
         Call_Resample (square_image 8) [2, 2] sitkLinear [0, 0] [7, 7] [1, 0, 0, 1] 0 sitkFloat32,
         Call_SmoothingRecursiveGaussian (square_image 8) 4,
         Call_Resample (square_image 8) [4, 4] sitkLinear [0, 0] [7 / 3, 7 / 3] [1, 0, 0, 1] 0 sitkFloat32,
         Call_SmoothingRecursiveGaussian (square_image 8) 4,
         Call_Resample (square_image 8) [4, 4] sitkLinear [0, 0] [7 / 3, 7 / 3] [1, 0, 0, 1] 0 sitkFloat32],
        Inr ([square_image 8, level_by_4, level_by_2], [square_image 8, level_by_4, level_by_2]))"
  by (simp add: create_image_pyramid_def index_first_def mock_level_2 mock_level_4 return_io_def)

lemma mock_initial_field_finer_first:
  "create_initial_displacement_field mock_sitk None [square_image 8, level_by_4, level_by_2]
   = ([], Inr (zero_displacement_field level_by_2))"
  by (simp add: create_initial_displacement_field_def zero_field_created lift_io_def)

lemma mock_run_finer_first:
  "run_the_registration mock_sitk mock_algorithm [square_image 8, level_by_4, level_by_2]
     [square_image 8, level_by_4, level_by_2] (zero_displacement_field level_by_2)
   = ([Call_Execute level_by_2 level_by_2 (zero_displacement_field level_by_2),
       Call_ResampleToReference
         (constant_image [4, 4] [7 / 3, 7 / 3] [0, 0] [1, 0, 0, 1] sitkVectorFloat64 [1, 1])
         level_by_4,
       Call_Execute level_by_4 level_by_4
         (constant_image [2, 2] [7, 7] [0, 0] [1, 0, 0, 1] sitkVectorFloat64 [0, 0]),
       Call_ResampleToReference
         (constant_image [2, 2] [7, 7] [0, 0] [1, 0, 0, 1] sitkVectorFloat64 [1, 1])
         (square_image 8),
       Call_Execute (square_image 8) (square_image 8)
         (constant_image [8, 8] [1, 1] [0, 0] [1, 0, 0, 1] sitkVectorFloat64 [0, 0])],
      Inr (constant_image [8, 8] [1, 1] [0, 0] [1, 0, 0, 1] sitkVectorFloat64 [1, 1]))"
  by (simp add: run_the_registration_def mock_algorithm_def zero_displacement_field_def
      constant_image_def return_io_def)

lemma mock_driver_finer_first:
  "snd (multiscale_demons mock_sitk mock_algorithm (square_image 8) (square_image 8) None
          (Some [2, 4]) (Some [4, 8]))
     = Inr (DisplacementFieldTransform
              (constant_image [8, 8] [1, 1] [0, 0] [1, 0, 0, 1] sitkVectorFloat64 [1, 1]))"
  "executed_levels (fst (multiscale_demons mock_sitk mock_algorithm (square_image 8)
          (square_image 8) None (Some [2, 4]) (Some [4, 8])))
     = [(level_by_2, level_by_2), (level_by_4, level_by_4), (square_image 8, square_image 8)]"
  "resample_targets (fst (multiscale_demons mock_sitk mock_algorithm (square_image 8)
          (square_image 8) None (Some [2, 4]) (Some [4, 8])))
     = [level_by_4, square_image 8]"
  by (simp_all add: multiscale_demons_def mock_pyramid_finer_first mock_initial_field_finer_first
      mock_run_finer_first return_io_def)

lemma mock_initial_field_finer_first_Some:
  "create_initial_displacement_field mock_sitk (Some 3) [square_image 8, level_by_4, level_by_2]
     = ([Call_TransformToDisplacementField 3 sitkVectorFloat64 [4, 4] [0, 0] [7 / 3, 7 / 3]
           [1, 0, 0, 1]],
        Inr (constant_image [4, 4] [7 / 3, 7 / 3] [0, 0] [1, 0, 0, 1] sitkVectorFloat64 [3, 3]))"
  by (simp add: create_initial_displacement_field_def call_io_def)

section \<open>Claims\<close>

subsection \<open>The new grid size\<close>

text \<open>
  Claim C4, as stated: for every shrink factor greater than 1 the new size of an axis is
  \<open>round(original_size / shrink_factor)\<close>, clamped to a minimum of 1. The code has no
  clamp: an axis of size 8 shrunk by 32 gets the new size \<open>int(0.25 + 0.5) = 0\<close>, where
  the clamped formula gives 1. (Every number in this run is a binary fraction, so the
  floating-point unit rounds nothing.)
\<close>

theorem new_size_not_clamped_counterexample:
  "(1::real) < 32
   \<and> new_size_list (GetSize (square_image 8)) 32 = Inr [0, 0]
   \<and> new_size_axis 8 32 = Inr 0
   \<and> max 1 (round ((8::real) / 32)) = (1::int)
   \<and> new_size_axis 8 32 \<noteq> Inr (max 1 (round ((8::real) / 32)))"
  by (simp add: new_size_list_def new_size_axis_def py_int_def round_def)

text \<open>
  Claim C4, amended: for every shrink factor greater than 1 the new size of an axis is
  \<open>int(original_size / float(shrink_factor) + 0.5)\<close> with no minimum. For any rounding of
  the floating-point unit that is monotone and leaves the integers and half-integers up
  to the original size as they are, that is \<open>original_size / shrink_factor\<close> rounded to
  the nearest integer, halves up, or one more; it is exactly the rounded quotient when the
  fractional part of the quotient is at least one half, and when the quotient and the sum
  are not rounded at all.
\<close>

theorem new_size_is_unclamped_rounding:
  assumes factor: "1 < shrink_factor"
    and mono: "mono fl"
    and exact: "\<And>k. k \<le> sz \<Longrightarrow> fl (real k) = real k \<and> fl (real k + 1 / 2) = real k + 1 / 2"
  shows "\<exists>n. new_size_axis_rounded fl sz shrink_factor = Inr n
           \<and> round (real sz / shrink_factor) \<le> n
           \<and> n \<le> round (real sz / shrink_factor) + 1
           \<and> (1 / 2 \<le> frac (real sz / shrink_factor) \<longrightarrow> n = round (real sz / shrink_factor))
           \<and> (fl (real sz / shrink_factor) = real sz / shrink_factor
                \<and> fl (real sz / shrink_factor + 1 / 2) = real sz / shrink_factor + 1 / 2
               \<longrightarrow> n = round (real sz / shrink_factor))"
proof -
  let ?q = "real sz / shrink_factor"
  let ?s = "fl (fl ?q + 1 / 2)"
  have pos: "0 < shrink_factor" using factor by simp
  have q0: "0 \<le> ?q" using pos by simp
  define K where "K = nat \<lfloor>?q\<rfloor>"
  have K: "real K \<le> ?q" "?q < real K + 1"
    using q0 by (simp_all add: K_def)
  have rnd: "round ?q = (if ?q < real K + 1 / 2 then int K else int K + 1)"
  proof (cases "?q < real K + 1 / 2")
    case True
    then have "\<lfloor>?q + 1 / 2\<rfloor> = int K" using K by (intro floor_unique) simp_all
    then show ?thesis using True by (simp add: round_def)
  next
    case False
    then have "\<lfloor>?q + 1 / 2\<rfloor> = int K + 1" using K by (intro floor_unique) simp_all
    then show ?thesis using False by (simp add: round_def)
  qed
  have frac: "frac ?q = ?q - real K"
    using q0 by (simp add: frac_def K_def)
  have fixK: "fl (real K) = real K" "fl (real K + 1 / 2) = real K + 1 / 2"
    and fixK1: "0 < sz \<Longrightarrow> fl (real K + 1) = real K + 1"
               "0 < sz \<Longrightarrow> fl (real K + 3 / 2) = real K + 3 / 2"
  proof -
    have "?q \<le> real sz"
      using factor by (simp add: field_simps mult_le_cancel_right1 mult_le_cancel_left1)
    then have le: "K \<le> sz" using K(1) by linarith
    show "fl (real K) = real K" "fl (real K + 1 / 2) = real K + 1 / 2"
      using exact [OF le] by simp_all
    assume sz: "0 < sz"
    have "?q < real sz"
      using factor sz by (simp add: field_simps mult_less_cancel_right1 mult_less_cancel_left1)
    then have "Suc K \<le> sz" using K(1) by linarith
    from exact [OF this] show "fl (real K + 1) = real K + 1" "fl (real K + 3 / 2) = real K + 3 / 2"
      by (simp_all add: add.commute)
  qed
  have computed: "new_size_axis_rounded fl sz shrink_factor = Inr \<lfloor>?s\<rfloor>" if "0 \<le> ?s"
    using that pos by (simp add: new_size_axis_rounded_def py_int_def)
  have range: "0 \<le> ?s \<and> round ?q \<le> \<lfloor>?s\<rfloor> \<and> \<lfloor>?s\<rfloor> \<le> round ?q + 1
                \<and> (1 / 2 \<le> frac ?q \<longrightarrow> \<lfloor>?s\<rfloor> = round ?q)"
  proof (cases "0 < sz")
    case False
    then have sz0: "sz = 0" by simp
    then have "K = 0" by (simp add: K_def)
    then have "fl 0 = 0" "fl (0 + 1 / 2) = 1 / 2" using fixK by simp_all
    then show ?thesis unfolding sz0 by (simp add: round_def)
  next
    case sz: True
    show ?thesis
    proof (cases "?q < real K + 1 / 2")
      case True
      have "real K \<le> fl ?q \<and> fl ?q \<le> real K + 1 / 2"
        using True K(1) by (intro rounded_sum_between [OF mono fixK]) simp_all
      then have "real K + 1 / 2 \<le> fl ?q + 1 / 2 \<and> fl ?q + 1 / 2 \<le> real K + 1" by simp
      then have "real K + 1 / 2 \<le> ?s \<and> ?s \<le> real K + 1"
        by (intro rounded_sum_between [OF mono fixK(2) fixK1(1) [OF sz]]) simp_all
      then have "0 \<le> ?s" "int K \<le> \<lfloor>?s\<rfloor>" "\<lfloor>?s\<rfloor> \<le> int K + 1"
        by (simp_all add: le_floor_iff floor_le_iff)
      moreover have "\<not> 1 / 2 \<le> frac ?q" using True frac by linarith
      moreover have "round ?q = int K" using True rnd by simp
      ultimately show ?thesis by simp
    next
      case False
      have "real K + 1 / 2 \<le> fl ?q \<and> fl ?q \<le> real K + 1"
        using False K(2) by (intro rounded_sum_between [OF mono fixK(2) fixK1(1) [OF sz]]) simp_all
      then have "real K + 1 \<le> fl ?q + 1 / 2 \<and> fl ?q + 1 / 2 \<le> real K + 3 / 2" by simp
      then have "real K + 1 \<le> ?s \<and> ?s \<le> real K + 3 / 2"
        by (intro rounded_sum_between [OF mono fixK1(1) [OF sz] fixK1(2) [OF sz]]) simp_all
      then have "0 \<le> ?s" "\<lfloor>?s\<rfloor> = int K + 1"
        by (simp, intro floor_unique) simp_all
      then show ?thesis using False rnd by simp
    qed
  qed
  have same: "\<lfloor>?s\<rfloor> = round ?q"
    if "fl ?q = ?q \<and> fl (?q + 1 / 2) = ?q + 1 / 2"
    using that by (simp add: round_def)
  show ?thesis
    using computed range same by blast
qed


theorem new_size_is_unclamped_rounding_witness:
  "(1::real) < 32 \<and> mono (\<lambda>x::real. x)
   \<and> new_size_axis_rounded (\<lambda>x. x) 8 32 = Inr 0
   \<and> round ((8::real) / 32) = 0
   \<and> (1::real) < 20 \<and> mono quarter_rounding
   \<and> new_size_axis_rounded quarter_rounding 8 20 = Inr 1
   \<and> round ((8::real) / 20) = 0"
proof -
  have exact: "mono (\<lambda>x::real. x)" by (simp add: mono_def)
  have "\<exists>n. new_size_axis_rounded (\<lambda>x. x) 8 32 = Inr n \<and> round ((8::real) / 32) \<le> n"
    using new_size_is_unclamped_rounding [of 32 "\<lambda>x. x" 8, OF _ exact] by auto
  moreover have "\<exists>n. new_size_axis_rounded quarter_rounding 8 20 = Inr n
        \<and> n \<le> round ((8::real) / 20) + 1"
    using new_size_is_unclamped_rounding [of 20 quarter_rounding 8, OF _ mono_quarter_rounding
        quarter_rounding_exact] by auto
  moreover have "new_size_axis_rounded (\<lambda>x. x) 8 32 = Inr 0"
    by (simp add: new_size_axis_rounded_def py_int_def)
  moreover have "new_size_axis_rounded quarter_rounding 8 20 = Inr 1"
    by (simp add: new_size_axis_rounded_def quarter_rounding_def py_int_def)
  ultimately show ?thesis
    using exact mono_quarter_rounding by (simp add: round_def)
qed

text \<open>
  Claim C8: for an axis of size at least 1 and a shrink factor greater than 1 the new size
  is at most the original size, and it is strictly smaller when the shrink factor is at
  least 2 and the original size is greater than 1.
\<close>

theorem new_size_monotone:
  assumes "1 \<le> sz" and "1 < shrink_factor"
  shows "\<exists>n. new_size_axis sz shrink_factor = Inr n \<and> n \<le> int sz
             \<and> (2 \<le> shrink_factor \<and> 1 < sz \<longrightarrow> n < int sz)"
proof -
  have pos: "0 < shrink_factor" using assms by simp
  let ?n = "\<lfloor>real sz / shrink_factor + 1 / 2\<rfloor>"
  have eq: "new_size_axis sz shrink_factor = Inr ?n"
    by (rule new_size_axis_pos [OF pos])
  have "real sz / shrink_factor \<le> real sz"
    using assms pos by (simp add: field_simps mult_le_cancel_left1)
  then have "real sz / shrink_factor + 1 / 2 < real sz + 1" by simp
  then have le: "?n \<le> int sz"
    by (simp add: floor_le_iff)
  have lt: "?n < int sz" if "2 \<le> shrink_factor" "1 < sz"
  proof -
    have "real sz / shrink_factor \<le> real sz / 2"
      using frac_le [of "real sz" "real sz" 2 shrink_factor] that by simp
    moreover have "real sz / 2 + 1 / 2 < real sz" using that by (simp add: field_simps)
    ultimately have "real sz / shrink_factor + 1 / 2 < real sz" by linarith
    then show ?thesis by (simp add: floor_less_iff)
  qed
  show ?thesis using eq le lt by blast
qed

theorem new_size_monotone_witness:
  "1 \<le> (8::nat) \<and> (1::real) < 2 \<and> (2::real) \<le> 2 \<and> 1 < (8::nat)
   \<and> new_size_axis 8 2 = Inr 4 \<and> (4::int) < int 8"
proof -
  have "new_size_axis 8 2 = Inr 4"
    by (simp add: new_size_axis_def py_int_def)
  then show ?thesis
    using new_size_monotone [of 8 2] by simp
qed

subsection \<open>A new size of 1\<close>

text \<open>
  Claim C5, as stated: when the new size of some axis is 1 the computation of the level
  fails with a configuration error of its own rather than with the division by zero of
  the spacing formula. The code has no such check: a 2 by 2 image shrunk by 2 gets the new
  size 1 on both axes, and the call ends with the \<open>ZeroDivisionError\<close> raised by
  \<open>((original_sz-1)*original_spc)/(new_sz-1)\<close>.
\<close>

theorem degenerate_axis_counterexample:
  "new_size_list (GetSize (square_image 2)) 2 = Inr [1, 1]
   \<and> smooth_and_resample mock_sitk (square_image 2) 2 0
       = ([Call_SmoothingRecursiveGaussian (square_image 2) 0], Inl ZeroDivisionError)"
  by (simp add: smooth_and_resample_def new_size_list_def new_size_axis_def py_int_def
      new_spacing_list_def new_spacing_axis_def)

text \<open>
  Claim C5, amended: when the new size of some axis is 1 (the image having one spacing for
  each axis), \<open>smooth_and_resample\<close> fails before it resamples: the only library call
  is the smoothing, and the exception that reaches the caller is the smoothing's own if
  the smoothing raises, and otherwise the \<open>ZeroDivisionError\<close> of the spacing formula.
\<close>

theorem degenerate_axis_raises_ZeroDivisionError:
  assumes "length (GetSpacing img) = length (GetSize img)"
    and "new_size_list (GetSize img) shrink_factor = Inr new_size"
    and "1 \<in> set new_size"
  shows "smooth_and_resample lib img shrink_factor smoothing_sigma =
           ([Call_SmoothingRecursiveGaussian img smoothing_sigma],
            Inl (case SmoothingRecursiveGaussian lib img smoothing_sigma of
                   Inl e \<Rightarrow> e | Inr smoothed \<Rightarrow> ZeroDivisionError))"
proof (cases "SmoothingRecursiveGaussian lib img smoothing_sigma")
  case (Inl e)
  then show ?thesis by (simp add: smooth_and_resample_smoothing_fails)
next
  case (Inr smoothed)
  have "length new_size = length (GetSize img)"
    using assms(2) by (rule new_size_list_length)
  then have "new_spacing_list (GetSize img) (GetSpacing img) new_size = Inl ZeroDivisionError"
    using assms(1,3) by (intro new_spacing_list_raises)
  then show ?thesis
    using Inr assms(2) by (simp add: smooth_and_resample_spacing_fails)
qed

theorem degenerate_axis_raises_ZeroDivisionError_witness:
  "length (GetSpacing (square_image 2)) = length (GetSize (square_image 2))
   \<and> new_size_list (GetSize (square_image 2)) 2 = Inr [1, 1]
   \<and> (1::int) \<in> set [1, 1]
   \<and> smooth_and_resample mock_sitk (square_image 2) 2 3
       = ([Call_SmoothingRecursiveGaussian (square_image 2) 3], Inl ZeroDivisionError)"
proof -
  have ns: "new_size_list (GetSize (square_image 2)) 2 = Inr [1, 1]"
    by (simp add: new_size_list_def new_size_axis_def py_int_def)
  show ?thesis
    using degenerate_axis_raises_ZeroDivisionError [of "square_image 2" 2 "[1, 1]" mock_sitk 3] ns
    by simp
qed

subsection \<open>The physical extent\<close>

text \<open>
  Claim C7: when the new size is at least 2 on every axis, the spacing formula succeeds
  and on every axis \<open>(new_size - 1) * new_spacing = (original_size - 1) * original_spacing\<close>;
  the same holds for size and spacing of the resampled image whenever the library's
  \<open>Resample\<close> returns an image on the grid it was asked for. (Floats are exact reals
  here, so the equality is exact.)
\<close>

theorem physical_extent_preserved:
  assumes wf: "length (GetSpacing img) = length (GetSize img)"
    and ns: "new_size_list (GetSize img) shrink_factor = Inr new_size"
    and ge2: "\<forall>n \<in> set new_size. 2 \<le> n"
  shows "\<exists>new_spacing.
           new_spacing_list (GetSize img) (GetSpacing img) new_size = Inr new_spacing
         \<and> length new_spacing = length (GetSize img)
         \<and> (\<forall>i < length (GetSize img).
               real_of_int (new_size ! i - 1) * new_spacing ! i
                 = real_of_int (int (GetSize img ! i) - 1) * GetSpacing img ! i)
         \<and> (\<forall>out. Resample_on_requested_grid lib
               \<longrightarrow> snd (smooth_and_resample lib img shrink_factor smoothing_sigma) = Inr out
               \<longrightarrow> (\<forall>i < length (GetSize img).
                      (real (GetSize out ! i) - 1) * GetSpacing out ! i
                        = (real (GetSize img ! i) - 1) * GetSpacing img ! i))"
proof -
  let ?szs = "GetSize img" and ?spc = "GetSpacing img"
  let ?f = "\<lambda>(original_sz, original_spc, new_sz).
              (real_of_int (int original_sz - 1) * original_spc) / real_of_int (new_sz - 1)"
  let ?nsp = "map ?f (zip ?szs (zip ?spc new_size))"
  have len: "length new_size = length ?szs"
    using ns by (rule new_size_list_length)
  have no_one: "1 \<notin> set new_size" using ge2 by auto
  have nsp: "new_spacing_list ?szs ?spc new_size = Inr ?nsp"
    using wf len no_one by (rule new_spacing_list_ok)
  have len_nsp: "length ?nsp = length ?szs" using wf len by simp
  have extent: "real_of_int (new_size ! i - 1) * ?nsp ! i
                 = real_of_int (int (?szs ! i) - 1) * ?spc ! i" if "i < length ?szs" for i
  proof -
    have "new_size ! i \<in> set new_size" using that len by simp
    then have "new_size ! i - 1 \<noteq> 0" using ge2 by auto
    then show ?thesis using that wf len by simp
  qed
  have out: "(real (GetSize out ! i) - 1) * GetSpacing out ! i
                        = (real (?szs ! i) - 1) * ?spc ! i"
    if contract: "Resample_on_requested_grid lib"
      and run: "snd (smooth_and_resample lib img shrink_factor smoothing_sigma) = Inr out"
      and i: "i < length ?szs" for out i
  proof -
    from smooth_and_resample_Inr [OF run] ns nsp obtain smoothed where
      "Resample lib smoothed new_size sitkLinear (GetOrigin img) ?nsp (GetDirection img) 0
         (GetPixelID img) = Inr out"
      by auto
    with contract have grid: "map int (GetSize out) = new_size" "GetSpacing out = ?nsp"
      unfolding Resample_on_requested_grid_def by blast+
    have "length (GetSize out) = length ?szs"
      using grid(1) len by (metis length_map)
    then have "int (GetSize out ! i) = new_size ! i"
      using grid(1) i by (metis nth_map)
    then have "real (GetSize out ! i) - 1 = real_of_int (new_size ! i - 1)"
      by (metis of_int_diff of_int_1 of_int_of_nat_eq)
    then show ?thesis
      using extent [OF i] grid(2) by simp
  qed
  show ?thesis
    using nsp len_nsp extent out by blast
qed

theorem physical_extent_preserved_witness:
  "length (GetSpacing (square_image 8)) = length (GetSize (square_image 8))
   \<and> new_size_list (GetSize (square_image 8)) 2 = Inr [4, 4]
   \<and> list_all (\<lambda>n. 2 \<le> n) [4, 4 :: int]
   \<and> new_spacing_list (GetSize (square_image 8)) (GetSpacing (square_image 8)) [4, 4]
        = Inr [7 / 3, 7 / 3]
   \<and> Resample_on_requested_grid mock_sitk
   \<and> (\<exists>out. snd (smooth_and_resample mock_sitk (square_image 8) 2 0) = Inr out
         \<and> GetSize out = [4, 4] \<and> GetSpacing out = [7 / 3, 7 / 3]
         \<and> (real (GetSize out ! 0) - 1) * GetSpacing out ! 0
              = (real (GetSize (square_image 8) ! 0) - 1) * GetSpacing (square_image 8) ! 0)"
proof -
  have wf: "length (GetSpacing (square_image 8)) = length (GetSize (square_image 8))"
    by simp
  have ns: "new_size_list (GetSize (square_image 8)) 2 = Inr [4, 4]"
    by (simp add: new_size_list_def new_size_axis_def py_int_def)
  have ge2: "\<forall>n \<in> set [4, 4 :: int]. 2 \<le> n"
    by simp
  have nsp: "new_spacing_list (GetSize (square_image 8)) (GetSpacing (square_image 8)) [4, 4]
        = Inr [7 / 3, 7 / 3]"
    by (simp add: new_spacing_list_def new_spacing_axis_def)
  have run: "snd (smooth_and_resample mock_sitk (square_image 8) 2 0)
        = Inr level_by_2"
    using ns nsp by (simp add: smooth_and_resample_resamples level_by_2_def)
  from physical_extent_preserved [OF wf ns ge2, of mock_sitk 0]
  have "\<forall>out. Resample_on_requested_grid mock_sitk
          \<longrightarrow> snd (smooth_and_resample mock_sitk (square_image 8) 2 0) = Inr out
          \<longrightarrow> (\<forall>i < length (GetSize (square_image 8)).
                 (real (GetSize out ! i) - 1) * GetSpacing out ! i
                   = (real (GetSize (square_image 8) ! i) - 1) * GetSpacing (square_image 8) ! i)"
    by blast
  with mock_Resample_on_requested_grid run
  have "(real (GetSize level_by_2 ! 0) - 1)
          * GetSpacing level_by_2 ! 0
        = (real (GetSize (square_image 8) ! 0) - 1) * GetSpacing (square_image 8) ! 0"
    by simp
  then show ?thesis
    using wf ns nsp run mock_Resample_on_requested_grid by simp
qed

subsection \<open>The pyramid\<close>

text \<open>
  Claim C1, as stated: the pyramid holds \<open>len(descriptors) + 1\<close> images, coarsest first,
  with the input image last. The lists the driver builds are the other way round: the
  input image is element 0 and the levels are appended behind it. For an 8 by 8 image and
  the notebook's own arguments \<open>shrink_factors = [4,2]\<close>, \<open>smoothing_sigmas = [8,4]\<close> the
  list is the input (8 by 8), the level shrunk by 2 (4 by 4), the level shrunk by 4
  (2 by 2); its last element is not the input.
\<close>

theorem pyramid_order_counterexample:
  "snd (create_image_pyramid mock_sitk (square_image 8) (square_image 8) (Some [4, 2]) (Some [8, 4]))
     = Inr ([square_image 8, level_by_2, level_by_4], [square_image 8, level_by_2, level_by_4])
   \<and> last [square_image 8, level_by_2, level_by_4] \<noteq> square_image 8
   \<and> GetSize (hd [square_image 8, level_by_2, level_by_4]) = [8, 8]
   \<and> GetSize (last [square_image 8, level_by_2, level_by_4]) = [2, 2]"
  using mock_coarsest_is_not_the_input by (simp add: mock_pyramid)

text \<open>
  Claim C1, amended: the pyramid is built without an exception exactly when every level can
  be computed, and then each of the two lists holds \<open>len(descriptors) + 1\<close> images, where
  the descriptors are the pairs \<open>zip(shrink_factors, smoothing_sigmas)\<close>; element 0 is the
  input image itself, and the level of the \<open>i\<close>-th descriptor supplied is element
  \<open>len(descriptors) - i\<close>, so the level of the first descriptor supplied is last. (The
  driver then works through the list from its last element to element 0.)
\<close>

theorem pyramid_original_first:
  "snd (create_image_pyramid lib fixed_image moving_image (Some shrink_factors)
          (Some smoothing_sigmas)) = Inr (fixed_images, moving_images)
   \<longleftrightarrow>
     length fixed_images = length (zip shrink_factors smoothing_sigmas) + 1
   \<and> length moving_images = length (zip shrink_factors smoothing_sigmas) + 1
   \<and> fixed_images ! 0 = fixed_image
   \<and> moving_images ! 0 = moving_image
   \<and> (\<forall>i < length (zip shrink_factors smoothing_sigmas).
         snd (smooth_and_resample lib fixed_image (shrink_factors ! i) (smoothing_sigmas ! i))
           = Inr (fixed_images ! (length (zip shrink_factors smoothing_sigmas) - i))
       \<and> snd (smooth_and_resample lib moving_image (shrink_factors ! i) (smoothing_sigmas ! i))
           = Inr (moving_images ! (length (zip shrink_factors smoothing_sigmas) - i)))"
  (is "?built \<longleftrightarrow> ?shape")
proof
  let ?ds = "zip shrink_factors smoothing_sigmas"
  let ?n = "length ?ds"
  assume built: ?built
  from create_image_pyramid_Inr [OF built] obtain fl ml where
    fi: "fixed_images = fixed_image # fl" and mi: "moving_images = moving_image # ml"
    and fl: "list_all2 (\<lambda>d l. snd (smooth_and_resample lib fixed_image (fst d) (snd d)) = Inr l)
               (rev ?ds) fl"
    and ml: "list_all2 (\<lambda>d l. snd (smooth_and_resample lib moving_image (fst d) (snd d)) = Inr l)
               (rev ?ds) ml"
    by (auto simp: descriptors_def)
  have len_fl: "length fl = ?n" using fl by (auto dest: list_all2_lengthD)
  have len_ml: "length ml = ?n" using ml by (auto dest: list_all2_lengthD)
  have nth: "?ds ! i = (shrink_factors ! i, smoothing_sigmas ! i)" if "i < ?n" for i
    using that by simp
  show ?shape
    using fi mi len_fl len_ml list_all2_rev_nth [OF fl] list_all2_rev_nth [OF ml] nth
    by (simp del: length_zip nth_zip)
next
  let ?ds = "zip shrink_factors smoothing_sigmas"
  let ?n = "length ?ds"
  assume shape: ?shape
  have level: "list_all2 (\<lambda>d l. snd (smooth_and_resample lib img (fst d) (snd d)) = Inr l)
                 (rev ?ds) (tl imgs)"
    if len: "length imgs = ?n + 1"
      and all: "\<And>i. i < ?n \<Longrightarrow>
             snd (smooth_and_resample lib img (shrink_factors ! i) (smoothing_sigmas ! i))
               = Inr (imgs ! (?n - i))" for img imgs
  proof (rule list_all2_all_nthI)
    show "length (rev ?ds) = length (tl imgs)" using len by (simp del: length_zip)
  next
    fix j assume "j < length (rev ?ds)"
    then have j: "j < ?n" by (simp del: length_zip)
    let ?i = "?n - 1 - j"
    have i: "?i < ?n" using j by (simp del: length_zip)
    have "rev ?ds ! j = ?ds ! ?i" using j by (simp add: rev_nth del: length_zip)
    also have "\<dots> = (shrink_factors ! ?i, smoothing_sigmas ! ?i)" using i by simp
    finally have d: "rev ?ds ! j = (shrink_factors ! ?i, smoothing_sigmas ! ?i)" .
    have "imgs ! (?n - ?i) = tl imgs ! j"
      using j len by (cases imgs) (simp_all del: length_zip)
    then show "snd (smooth_and_resample lib img (fst (rev ?ds ! j)) (snd (rev ?ds ! j)))
                 = Inr (tl imgs ! j)"
      using all [OF i] d by simp
  qed
  have fi: "fixed_images = fixed_image # tl fixed_images"
    using shape by (cases fixed_images) simp_all
  have mi: "moving_images = moving_image # tl moving_images"
    using shape by (cases moving_images) simp_all
  have "snd (pyramid_loop lib (rev ?ds) [fixed_image] [moving_image])
          = Inr (fixed_image # [] @ tl fixed_images, moving_image # [] @ tl moving_images)"
    using shape by (intro pyramid_loop_succeeds level) simp_all
  then show ?built
    using fi mi by (simp add: create_image_pyramid_Some_Some)
qed

theorem pyramid_original_first_witness:
  "snd (create_image_pyramid mock_sitk (square_image 8) (square_image 8) (Some [4, 2]) (Some [8, 4]))
     = Inr ([square_image 8, level_by_2, level_by_4], [square_image 8, level_by_2, level_by_4])
   \<and> length [square_image 8, level_by_2, level_by_4]
        = length (zip [4, 2 :: real] [8, 4 :: real]) + 1
   \<and> snd (smooth_and_resample mock_sitk (square_image 8) 4 8)
        = Inr ([square_image 8, level_by_2, level_by_4] ! 2)
   \<and> snd (smooth_and_resample mock_sitk (square_image 8) 2 4)
        = Inr ([square_image 8, level_by_2, level_by_4] ! 1)"
proof -
  have run: "snd (create_image_pyramid mock_sitk (square_image 8) (square_image 8) (Some [4, 2]) (Some [8, 4]))
     = Inr ([square_image 8, level_by_2, level_by_4], [square_image 8, level_by_2, level_by_4])"
    by (simp add: mock_pyramid)
  from pyramid_original_first [THEN iffD1, OF run] show ?thesis
    using run by (simp add: mock_level_2 mock_level_4)
qed

text \<open>
  Claim C9: every Gaussian smoothing the pyramid construction asks for is applied to the
  fixed or to the moving image handed to the driver, and when the construction succeeds
  every level is \<open>smooth_and_resample\<close> of that base image and one descriptor, never of an
  earlier level; element 0 of each list is still the base image.
\<close>

theorem levels_from_base_image:
  "set (smoothed_inputs (fst (create_image_pyramid lib fixed_image moving_image shrink_factors
          smoothing_sigmas))) \<subseteq> {fixed_image, moving_image}
   \<and> (\<forall>fixed_images moving_images.
         snd (create_image_pyramid lib fixed_image moving_image shrink_factors smoothing_sigmas)
           = Inr (fixed_images, moving_images)
         \<longrightarrow> fixed_images ! 0 = fixed_image \<and> moving_images ! 0 = moving_image
           \<and> list_all2 (\<lambda>d level. snd (smooth_and_resample lib fixed_image (fst d) (snd d)) = Inr level)
                (rev (descriptors shrink_factors smoothing_sigmas)) (tl fixed_images)
           \<and> list_all2 (\<lambda>d level. snd (smooth_and_resample lib moving_image (fst d) (snd d)) = Inr level)
                (rev (descriptors shrink_factors smoothing_sigmas)) (tl moving_images))"
proof -
  have "fixed_images ! 0 = fixed_image \<and> moving_images ! 0 = moving_image
           \<and> list_all2 (\<lambda>d level. snd (smooth_and_resample lib fixed_image (fst d) (snd d)) = Inr level)
                (rev (descriptors shrink_factors smoothing_sigmas)) (tl fixed_images)
           \<and> list_all2 (\<lambda>d level. snd (smooth_and_resample lib moving_image (fst d) (snd d)) = Inr level)
                (rev (descriptors shrink_factors smoothing_sigmas)) (tl moving_images)"
    if "snd (create_image_pyramid lib fixed_image moving_image shrink_factors smoothing_sigmas)
           = Inr (fixed_images, moving_images)" for fixed_images moving_images
    using create_image_pyramid_Inr [OF that] by auto
  then show ?thesis
    using create_image_pyramid_smoothed_inputs [of lib fixed_image moving_image shrink_factors
        smoothing_sigmas]
    by blast
qed

theorem levels_from_base_image_witness:
  "smoothed_inputs (fst (create_image_pyramid mock_sitk (square_image 8) (square_image 8)
       (Some [4, 2]) (Some [8, 4])))
     = [square_image 8, square_image 8, square_image 8, square_image 8]
   \<and> (\<exists>fixed_images moving_images.
         snd (create_image_pyramid mock_sitk (square_image 8) (square_image 8) (Some [4, 2]) (Some [8, 4]))
           = Inr (fixed_images, moving_images)
         \<and> fixed_images ! 0 = square_image 8
         \<and> rev (descriptors (Some [4, 2]) (Some [8, 4])) = [(2, 4), (4, 8)]
         \<and> snd (smooth_and_resample mock_sitk (square_image 8) 2 4) = Inr (tl fixed_images ! 0)
         \<and> snd (smooth_and_resample mock_sitk (square_image 8) 4 8) = Inr (tl fixed_images ! 1))"
  using levels_from_base_image [of mock_sitk "square_image 8" "square_image 8" "Some [4, 2]"
      "Some [8, 4]"]
  by (simp add: mock_pyramid mock_level_2 mock_level_4 descriptors_def)

text \<open>
  Claim C10: when \<open>shrink_factors\<close> and \<open>smoothing_sigmas\<close> are non-empty lists of
  unequal lengths, the call behaves exactly as the call with both lists cut to the length
  of the shorter one (same log, same value or exception): \<open>zip\<close> pairs them element by
  element and drops the rest without an exception, and a pyramid that is built has
  \<open>min(len(shrink_factors), len(smoothing_sigmas)) + 1\<close> images.
\<close>

theorem unequal_lengths_are_truncated:
  assumes "shrink_factors \<noteq> []" and "smoothing_sigmas \<noteq> []"
    and "length shrink_factors \<noteq> length smoothing_sigmas"
  shows "create_image_pyramid lib fixed_image moving_image (Some shrink_factors) (Some smoothing_sigmas)
           = create_image_pyramid lib fixed_image moving_image
               (Some (take (min (length shrink_factors) (length smoothing_sigmas)) shrink_factors))
               (Some (take (min (length shrink_factors) (length smoothing_sigmas)) smoothing_sigmas))
       \<and> multiscale_demons lib registration_algorithm fixed_image moving_image initial_transform
             (Some shrink_factors) (Some smoothing_sigmas)
           = multiscale_demons lib registration_algorithm fixed_image moving_image initial_transform
               (Some (take (min (length shrink_factors) (length smoothing_sigmas)) shrink_factors))
               (Some (take (min (length shrink_factors) (length smoothing_sigmas)) smoothing_sigmas))
       \<and> (\<forall>fixed_images moving_images.
             snd (create_image_pyramid lib fixed_image moving_image (Some shrink_factors)
                    (Some smoothing_sigmas)) = Inr (fixed_images, moving_images)
             \<longrightarrow> length fixed_images = min (length shrink_factors) (length smoothing_sigmas) + 1
               \<and> length moving_images = min (length shrink_factors) (length smoothing_sigmas) + 1)"
proof -
  let ?n = "min (length shrink_factors) (length smoothing_sigmas)"
  have pyr: "create_image_pyramid lib fixed_image moving_image (Some shrink_factors) (Some smoothing_sigmas)
           = create_image_pyramid lib fixed_image moving_image
               (Some (take ?n shrink_factors)) (Some (take ?n smoothing_sigmas))"
    unfolding create_image_pyramid_Some_Some zip_take_min ..
  have drv: "multiscale_demons lib registration_algorithm fixed_image moving_image initial_transform
             (Some shrink_factors) (Some smoothing_sigmas)
           = multiscale_demons lib registration_algorithm fixed_image moving_image initial_transform
               (Some (take ?n shrink_factors)) (Some (take ?n smoothing_sigmas))"
    unfolding multiscale_demons_def pyr ..
  have len: "length fixed_images = ?n + 1 \<and> length moving_images = ?n + 1"
    if "snd (create_image_pyramid lib fixed_image moving_image (Some shrink_factors)
                    (Some smoothing_sigmas)) = Inr (fixed_images, moving_images)"
    for fixed_images moving_images
    using create_image_pyramid_Inr [OF that]
    by (auto simp: descriptors_def dest: list_all2_lengthD)
  show ?thesis using pyr drv len by blast
qed

theorem unequal_lengths_are_truncated_witness:
  "[4, 2, 3 :: real] \<noteq> [] \<and> [8, 4 :: real] \<noteq> []
   \<and> length [4, 2, 3 :: real] \<noteq> length [8, 4 :: real]
   \<and> create_image_pyramid mock_sitk (square_image 8) (square_image 8) (Some [4, 2, 3]) (Some [8, 4])
       = create_image_pyramid mock_sitk (square_image 8) (square_image 8) (Some [4, 2]) (Some [8, 4])
   \<and> multiscale_demons mock_sitk mock_algorithm (square_image 8) (square_image 8) None
         (Some [4, 2, 3]) (Some [8, 4])
       = multiscale_demons mock_sitk mock_algorithm (square_image 8) (square_image 8) None
         (Some [4, 2]) (Some [8, 4])
   \<and> (\<exists>fixed_images moving_images.
         snd (create_image_pyramid mock_sitk (square_image 8) (square_image 8) (Some [4, 2, 3])
                (Some [8, 4])) = Inr (fixed_images, moving_images)
         \<and> length fixed_images = 3 \<and> length moving_images = 3)"
  using unequal_lengths_are_truncated [of "[4, 2, 3]" "[8, 4]" mock_sitk "square_image 8"
      "square_image 8" mock_algorithm None]
  by (simp add: mock_pyramid)

subsection \<open>The driver\<close>

text \<open>
  Claim C2: with no shrink factors (the default \<open>None\<close>, or the empty list) and no initial
  transform, the log of the driver is the single call
  \<open>Execute(fixed_image, moving_image, zero_field)\<close> with the all-zero displacement field
  on the fixed image's grid, and the driver's outcome is the outcome of that call: the same
  exception, or the returned field as a \<open>DisplacementFieldTransform\<close>. The fixed image is
  2D or 3D, the images \<open>sitk.Image(width, height, depth, ...)\<close> can build.
\<close>

theorem single_scale_when_no_descriptors:
  assumes "shrink_factors = None \<or> shrink_factors = Some []"
    and "length (GetSize fixed_image) = 2
         \<or> (length (GetSize fixed_image) = 3 \<and> GetDepth fixed_image \<noteq> 0)"
  shows "multiscale_demons lib registration_algorithm fixed_image moving_image None
           shrink_factors smoothing_sigmas
         = ([Call_Execute fixed_image moving_image (zero_displacement_field fixed_image)],
            map_sum id DisplacementFieldTransform
              (registration_algorithm fixed_image moving_image (zero_displacement_field fixed_image)))
       \<and> executed_levels (fst (multiscale_demons lib registration_algorithm fixed_image moving_image
            None shrink_factors smoothing_sigmas)) = [(fixed_image, moving_image)]"
proof -
  have pyr: "create_image_pyramid lib fixed_image moving_image shrink_factors smoothing_sigmas
               = return_io ([fixed_image], [moving_image])"
    using assms(1) by (auto simp: create_image_pyramid_def)
  have init: "create_initial_displacement_field lib None [fixed_image]
               = return_io (zero_displacement_field fixed_image)"
    using assms(2)
    by (simp add: create_initial_displacement_field_def index_last_def zero_field_created
        lift_io_def return_io_def)
  have run: "multiscale_demons lib registration_algorithm fixed_image moving_image None
           shrink_factors smoothing_sigmas
         = ([Call_Execute fixed_image moving_image (zero_displacement_field fixed_image)],
            map_sum id DisplacementFieldTransform
              (registration_algorithm fixed_image moving_image (zero_displacement_field fixed_image)))"
    unfolding multiscale_demons_def pyr
    by (cases "registration_algorithm fixed_image moving_image (zero_displacement_field fixed_image)")
       (simp_all add: init run_the_registration_def return_io_def)
  show ?thesis unfolding run by simp
qed

theorem single_scale_when_no_descriptors_witness:
  "length (GetSize (square_image 8)) = 2
   \<and> multiscale_demons mock_sitk mock_algorithm (square_image 8) (square_image 8) None None None
       = ([Call_Execute (square_image 8) (square_image 8) (zero_displacement_field (square_image 8))],
          Inr (DisplacementFieldTransform
                 (constant_image [8, 8] [1, 1] [0, 0] [1, 0, 0, 1] sitkVectorFloat64 [1, 1])))
   \<and> mock_algorithm (square_image 8) (square_image 8) (zero_displacement_field (square_image 8))
       = Inr (constant_image [8, 8] [1, 1] [0, 0] [1, 0, 0, 1] sitkVectorFloat64 [1, 1])
   \<and> executed_levels (fst (multiscale_demons mock_sitk mock_algorithm (square_image 8)
         (square_image 8) None None None)) = [(square_image 8, square_image 8)]"
  using single_scale_when_no_descriptors [of None "square_image 8" mock_sitk mock_algorithm
      "square_image 8" None]
  by (simp add: mock_algorithm_zero_field)

text \<open>
  Claim C3, as stated: \<open>Execute\<close> is called once for each level in strict
  coarsest-to-finest order, and between two calls the field is resampled onto the next
  finer level's grid. The driver takes the levels in the order in which the shrink factors
  were supplied and does not compare them: with \<open>shrink_factors = [2,4]\<close>,
  \<open>smoothing_sigmas = [4,8]\<close> on an 8 by 8 image the run returns after \<open>Execute\<close> on the
  4 by 4 level, then on the 2 by 2 level, then on the original, and the first resampling
  is onto the coarser 2 by 2 level.
\<close>

theorem finer_level_first_counterexample:
  "snd (multiscale_demons mock_sitk mock_algorithm (square_image 8) (square_image 8) None
          (Some [2, 4]) (Some [4, 8]))
     = Inr (DisplacementFieldTransform
              (constant_image [8, 8] [1, 1] [0, 0] [1, 0, 0, 1] sitkVectorFloat64 [1, 1]))
   \<and> executed_levels (fst (multiscale_demons mock_sitk mock_algorithm (square_image 8)
          (square_image 8) None (Some [2, 4]) (Some [4, 8])))
       = [(level_by_2, level_by_2), (level_by_4, level_by_4), (square_image 8, square_image 8)]
   \<and> resample_targets (fst (multiscale_demons mock_sitk mock_algorithm (square_image 8)
          (square_image 8) None (Some [2, 4]) (Some [4, 8])))
       = [level_by_4, square_image 8]
   \<and> GetSize level_by_2 = [4, 4] \<and> GetSize level_by_4 = [2, 2]
   \<and> GetSize (square_image 8) = [8, 8]
   \<and> \<not> no_finer level_by_2 level_by_4"
  by (simp add: mock_driver_finer_first no_finer_def)

text \<open>
  Claim C3, amended: the driver is the pyramid construction, the initial field, and then
  the loop of the specification run over the pyramid read from its last element to its
  first. In a run of the driver that returns, \<open>Execute\<close> is called exactly once for each
  level, in the order in which the descriptors were supplied, the level of the first
  descriptor first and the original images last; the field is resampled once onto each
  level after the first; the last call is the \<open>Execute\<close> on the original images, and what
  it returns is what the driver wraps as a \<open>DisplacementFieldTransform\<close>. That order is
  coarsest to finest (no level has more samples on any axis than a later one) when the
  shrink factors are supplied from the largest to the smallest, each at least 1, and the
  library's \<open>Resample\<close> returns images on the grid it was asked for (the comparison of
  the sizes holds for any monotone rounding of the floats, by
  \<open>new_size_axis_rounded_antimono\<close> and \<open>new_size_axis_rounded_le\<close>). In a run of the loop that
  returns, the calls alternate: \<open>Execute\<close> on a level, then the resampling of the field
  just returned onto the next level's fixed image, and nothing is smoothed.
\<close>

theorem levels_run_in_supply_order:
  "multiscale_demons lib registration_algorithm fixed_image moving_image initial_transform
       shrink_factors smoothing_sigmas
     = bind_io (create_image_pyramid lib fixed_image moving_image shrink_factors smoothing_sigmas)
         (\<lambda>pyramid.
       bind_io (create_initial_displacement_field lib initial_transform (fst pyramid))
         (\<lambda>initial_displacement_field.
       bind_io (for_each_level lib registration_algorithm (rev (zip (fst pyramid) (snd pyramid)))
                  initial_displacement_field) (\<lambda>final_displacement_field.
       return_io (DisplacementFieldTransform final_displacement_field))))
   \<and> (\<forall>calls result.
         multiscale_demons lib registration_algorithm fixed_image moving_image initial_transform
           shrink_factors smoothing_sigmas = (calls, Inr result)
         \<longrightarrow> (\<exists>fixed_images moving_images final d.
               snd (create_image_pyramid lib fixed_image moving_image shrink_factors
                      smoothing_sigmas) = Inr (fixed_images, moving_images)
             \<and> executed_levels calls = rev (zip fixed_images moving_images)
             \<and> list_all2 (\<lambda>descriptor level.
                    snd (smooth_and_resample lib fixed_image (fst descriptor) (snd descriptor))
                      = Inr (fst level)
                  \<and> snd (smooth_and_resample lib moving_image (fst descriptor) (snd descriptor))
                      = Inr (snd level))
                 (descriptors shrink_factors smoothing_sigmas) (butlast (executed_levels calls))
             \<and> last (executed_levels calls) = (fixed_image, moving_image)
             \<and> resample_targets calls = map fst (tl (executed_levels calls))
             \<and> last calls = Call_Execute fixed_image moving_image d
             \<and> registration_algorithm fixed_image moving_image d = Inr final
             \<and> result = DisplacementFieldTransform final
             \<and> (Resample_on_requested_grid lib
                  \<and> sorted_wrt (\<ge>) (map fst (descriptors shrink_factors smoothing_sigmas))
                  \<and> (\<forall>descriptor \<in> set (descriptors shrink_factors smoothing_sigmas).
                        1 \<le> fst descriptor)
                \<longrightarrow> sorted_wrt no_finer (map fst (executed_levels calls))
                  \<and> sorted_wrt no_finer (map snd (executed_levels calls)))))
   \<and> (\<forall>levels current calls final.
         levels \<noteq> [] \<longrightarrow>
         for_each_level lib registration_algorithm levels current = (calls, Inr final) \<longrightarrow>
           executed_levels calls = levels
         \<and> resample_targets calls = map fst (tl levels)
         \<and> smoothed_inputs calls = []
         \<and> length calls = 2 * length levels - 1
         \<and> (\<exists>d. last calls = Call_Execute (fst (last levels)) (snd (last levels)) d
                \<and> registration_algorithm (fst (last levels)) (snd (last levels)) d = Inr final))"
proof -
  let ?ds = "descriptors shrink_factors smoothing_sigmas"
  have run: "\<exists>fixed_images moving_images final d.
               snd (create_image_pyramid lib fixed_image moving_image shrink_factors
                      smoothing_sigmas) = Inr (fixed_images, moving_images)
             \<and> executed_levels calls = rev (zip fixed_images moving_images)
             \<and> list_all2 (\<lambda>descriptor level.
                    snd (smooth_and_resample lib fixed_image (fst descriptor) (snd descriptor))
                      = Inr (fst level)
                  \<and> snd (smooth_and_resample lib moving_image (fst descriptor) (snd descriptor))
                      = Inr (snd level))
                 ?ds (butlast (executed_levels calls))
             \<and> last (executed_levels calls) = (fixed_image, moving_image)
             \<and> resample_targets calls = map fst (tl (executed_levels calls))
             \<and> last calls = Call_Execute fixed_image moving_image d
             \<and> registration_algorithm fixed_image moving_image d = Inr final
             \<and> result = DisplacementFieldTransform final
             \<and> (Resample_on_requested_grid lib
                  \<and> sorted_wrt (\<ge>) (map fst ?ds)
                  \<and> (\<forall>descriptor \<in> set ?ds. 1 \<le> fst descriptor)
                \<longrightarrow> sorted_wrt no_finer (map fst (executed_levels calls))
                  \<and> sorted_wrt no_finer (map snd (executed_levels calls)))"
    if returns: "multiscale_demons lib registration_algorithm fixed_image moving_image
           initial_transform shrink_factors smoothing_sigmas = (calls, Inr result)"
    for calls result
  proof -
    from multiscale_demons_returns [OF returns] obtain fixed_images moving_images final d where
      built: "snd (create_image_pyramid lib fixed_image moving_image shrink_factors
                      smoothing_sigmas) = Inr (fixed_images, moving_images)"
      and levels: "executed_levels calls = rev (zip fixed_images moving_images)"
      and targets: "resample_targets calls = tl (rev fixed_images)"
      and final: "last calls = Call_Execute fixed_image moving_image d"
        "registration_algorithm fixed_image moving_image d = Inr final"
        "result = DisplacementFieldTransform final"
      by blast
    from pyramid_in_supply_order [OF built] obtain fls mls where
      fls: "rev fixed_images = fls @ [fixed_image]"
      and mls: "rev moving_images = mls @ [moving_image]"
      and order: "rev (zip fixed_images moving_images) = zip fls mls @ [(fixed_image, moving_image)]"
      and fixed: "list_all2 (\<lambda>d l. snd (smooth_and_resample lib fixed_image (fst d) (snd d)) = Inr l)
              ?ds fls"
      and moving: "list_all2 (\<lambda>d l. snd (smooth_and_resample lib moving_image (fst d) (snd d)) = Inr l)
              ?ds mls"
      by blast
    have len: "length fls = length ?ds" "length mls = length ?ds"
      using fixed moving by (auto dest: list_all2_lengthD)
    have both: "list_all2 (\<lambda>descriptor level.
                    snd (smooth_and_resample lib fixed_image (fst descriptor) (snd descriptor))
                      = Inr (fst level)
                  \<and> snd (smooth_and_resample lib moving_image (fst descriptor) (snd descriptor))
                      = Inr (snd level)) ?ds (zip fls mls)"
      using fixed moving len by (simp add: list_all2_conv_all_nth)
    have firsts: "map fst (executed_levels calls) = rev fixed_images"
      and seconds: "map snd (executed_levels calls) = rev moving_images"
      unfolding levels order fls mls using len by simp_all
    have next_levels: "map fst (tl (executed_levels calls)) = tl (rev fixed_images)"
      using firsts by (simp add: map_tl)
    have sorted: "sorted_wrt no_finer (map fst (executed_levels calls))
                  \<and> sorted_wrt no_finer (map snd (executed_levels calls))"
      if "Resample_on_requested_grid lib \<and> sorted_wrt (\<ge>) (map fst ?ds)
            \<and> (\<forall>descriptor \<in> set ?ds. 1 \<le> fst descriptor)"
      unfolding firsts seconds
      using pyramid_coarse_to_fine [OF built] that by blast
    show ?thesis
      using built levels both final targets sorted unfolding next_levels
      by (intro exI [of _ fixed_images] exI [of _ moving_images] exI [of _ final] exI [of _ d])
         (simp add: order)
  qed
  show ?thesis
    using multiscale_demons_for_each_level [of lib registration_algorithm fixed_image moving_image
        initial_transform shrink_factors smoothing_sigmas]
      run for_each_level_log [of lib registration_algorithm]
    by blast
qed

theorem levels_run_in_supply_order_witness:
  "\<exists>calls final.
     for_each_level mock_sitk mock_algorithm
       [(level_by_4, level_by_4), (level_by_2, level_by_2), (square_image 8, square_image 8)]
       (zero_displacement_field level_by_4)
       = (calls, Inr final)
     \<and> executed_levels calls
         = [(level_by_4, level_by_4), (level_by_2, level_by_2), (square_image 8, square_image 8)]
     \<and> resample_targets calls = [level_by_2, square_image 8]
     \<and> length calls = 5
     \<and> snd (multiscale_demons mock_sitk mock_algorithm (square_image 8) (square_image 8) None
              (Some [4, 2]) (Some [8, 4]))
         = Inr (DisplacementFieldTransform final)
     \<and> executed_levels (fst (multiscale_demons mock_sitk mock_algorithm (square_image 8)
              (square_image 8) None (Some [4, 2]) (Some [8, 4])))
         = [(level_by_4, level_by_4), (level_by_2, level_by_2), (square_image 8, square_image 8)]
     \<and> resample_targets (fst (multiscale_demons mock_sitk mock_algorithm (square_image 8)
              (square_image 8) None (Some [4, 2]) (Some [8, 4])))
         = [level_by_2, square_image 8]
     \<and> Resample_on_requested_grid mock_sitk
     \<and> sorted_wrt (\<ge>) (map fst (descriptors (Some [4, 2]) (Some [8, 4])))
     \<and> list_all (\<lambda>descriptor. 1 \<le> fst descriptor) (descriptors (Some [4, 2]) (Some [8, 4]))
     \<and> sorted_wrt no_finer [level_by_4, level_by_2, square_image 8]"
proof -
  let ?levels = "[(level_by_4, level_by_4), (level_by_2, level_by_2),
                  (square_image 8, square_image 8)]"
  let ?driver = "multiscale_demons mock_sitk mock_algorithm (square_image 8) (square_image 8) None
                   (Some [4, 2]) (Some [8, 4])"
  let ?ds = "descriptors (Some [4, 2]) (Some [8, 4])"
  obtain calls final where run:
    "for_each_level mock_sitk mock_algorithm ?levels (zero_displacement_field level_by_4)
       = (calls, Inr final)"
    using mock_for_each_level_succeeds by blast
  note claim = levels_run_in_supply_order [of mock_sitk mock_algorithm "square_image 8"
      "square_image 8" None "Some [4, 2]" "Some [8, 4]"]
  from claim run have calls:
    "executed_levels calls = ?levels"
    "resample_targets calls = map fst (tl ?levels)"
    "length calls = 2 * length ?levels - 1"
    by blast+
  from claim have "?driver
     = bind_io (create_image_pyramid mock_sitk (square_image 8) (square_image 8) (Some [4, 2])
                  (Some [8, 4]))
         (\<lambda>pyramid.
       bind_io (create_initial_displacement_field mock_sitk None (fst pyramid))
         (\<lambda>initial_displacement_field.
       bind_io (for_each_level mock_sitk mock_algorithm (rev (zip (fst pyramid) (snd pyramid)))
                  initial_displacement_field) (\<lambda>final_displacement_field.
       return_io (DisplacementFieldTransform final_displacement_field))))"
    by blast
  then have driver: "snd ?driver = Inr (DisplacementFieldTransform final)"
    by (simp add: mock_pyramid mock_initial_field_None mock_levels run return_io_def
        del: for_each_level.simps)
  then have "?driver = (fst ?driver, Inr (DisplacementFieldTransform final))"
    by (metis prod.collapse)
  with claim obtain fixed_images moving_images where
    "snd (create_image_pyramid mock_sitk (square_image 8) (square_image 8) (Some [4, 2])
            (Some [8, 4])) = Inr (fixed_images, moving_images)"
    "executed_levels (fst ?driver) = rev (zip fixed_images moving_images)"
    "resample_targets (fst ?driver) = map fst (tl (executed_levels (fst ?driver)))"
    "Resample_on_requested_grid mock_sitk \<and> sorted_wrt (\<ge>) (map fst ?ds)
       \<and> (\<forall>descriptor \<in> set ?ds. 1 \<le> fst descriptor)
     \<longrightarrow> sorted_wrt no_finer (map fst (executed_levels (fst ?driver)))
       \<and> sorted_wrt no_finer (map snd (executed_levels (fst ?driver)))"
    by blast
  then have log: "executed_levels (fst ?driver) = ?levels"
    "resample_targets (fst ?driver) = [level_by_2, square_image 8]"
    "Resample_on_requested_grid mock_sitk \<and> sorted_wrt (\<ge>) (map fst ?ds)
       \<and> (\<forall>descriptor \<in> set ?ds. 1 \<le> fst descriptor)
     \<longrightarrow> sorted_wrt no_finer (map fst ?levels)"
    by (auto simp: mock_pyramid)
  have ordered: "sorted_wrt (\<ge>) (map fst ?ds)" "list_all (\<lambda>descriptor. 1 \<le> fst descriptor) ?ds"
    by (simp_all add: descriptors_def)
  then have "sorted_wrt no_finer [level_by_4, level_by_2, square_image 8]"
    using log(3) mock_Resample_on_requested_grid by (simp add: list_all_iff)
  then show ?thesis
    using run calls driver log(1,2) ordered mock_Resample_on_requested_grid by simp
qed

text \<open>
  Claim C6, as stated: the initial displacement field is made on the grid of the coarsest
  fixed pyramid level. The driver makes it on the grid of \<open>fixed_images[-1]\<close>, the level of
  the first descriptor supplied, whatever its size: with \<open>shrink_factors = [2,4]\<close>,
  \<open>smoothing_sigmas = [4,8]\<close> on an 8 by 8 image the pyramid holds a 2 by 2 level and the
  initial field, zero or converted from an initial transform, is made 4 by 4.
\<close>

theorem initial_field_not_on_coarsest_counterexample:
  "snd (create_image_pyramid mock_sitk (square_image 8) (square_image 8) (Some [2, 4]) (Some [4, 8]))
     = Inr ([square_image 8, level_by_4, level_by_2], [square_image 8, level_by_4, level_by_2])
   \<and> create_initial_displacement_field mock_sitk None [square_image 8, level_by_4, level_by_2]
       = ([], Inr (zero_displacement_field level_by_2))
   \<and> create_initial_displacement_field mock_sitk (Some 3) [square_image 8, level_by_4, level_by_2]
       = ([Call_TransformToDisplacementField 3 sitkVectorFloat64 [4, 4] [0, 0] [7 / 3, 7 / 3]
             [1, 0, 0, 1]],
          Inr (constant_image [4, 4] [7 / 3, 7 / 3] [0, 0] [1, 0, 0, 1] sitkVectorFloat64 [3, 3]))
   \<and> GetSize (zero_displacement_field level_by_2) = [4, 4]
   \<and> GetSize level_by_4 = [2, 2]
   \<and> \<not> same_grid (zero_displacement_field level_by_2) level_by_4
   \<and> \<not> no_finer level_by_2 level_by_4"
  by (simp add: mock_pyramid_finer_first mock_initial_field_finer_first
      mock_initial_field_finer_first_Some same_grid_def zero_displacement_field_def no_finer_def)

text \<open>
  Claim C6, amended: the initial displacement field is made for the grid of
  \<open>fixed_images[-1]\<close>, the level the driver processes first: the level of the first
  descriptor supplied, or the fixed image itself when there is none. With an initial
  transform it is \<open>TransformToDisplacementField\<close> of that transform called with the size,
  origin, spacing and direction of that level; with none it is the all-zero field on that
  level's grid (for a level that is not 2D or 3D the construction raises). Every field
  that is produced has the size, origin, spacing and direction of that level, given that
  the library's conversion returns a field on the grid it was asked for. That level is the
  coarsest of the pyramid (no fixed level has fewer samples on any axis) when the shrink
  factors are supplied from the largest to the smallest, each at least 1, and the
  library's \<open>Resample\<close> returns images on the grid it was asked for.
\<close>

theorem initial_field_on_first_level_grid:
  assumes "snd (create_image_pyramid lib fixed_image moving_image shrink_factors smoothing_sigmas)
             = Inr (fixed_images, moving_images)"
  shows "(\<forall>t. initial_transform = Some t \<longrightarrow>
            create_initial_displacement_field lib initial_transform fixed_images
              = ([Call_TransformToDisplacementField t sitkVectorFloat64 (GetSize (last fixed_images))
                    (GetOrigin (last fixed_images)) (GetSpacing (last fixed_images))
                    (GetDirection (last fixed_images))],
                 TransformToDisplacementField lib t sitkVectorFloat64 (GetSize (last fixed_images))
                    (GetOrigin (last fixed_images)) (GetSpacing (last fixed_images))
                    (GetDirection (last fixed_images))))
       \<and> (initial_transform = None \<longrightarrow>
            create_initial_displacement_field lib initial_transform fixed_images
              = ([], if length (GetSize (last fixed_images)) = 2
                        \<or> (length (GetSize (last fixed_images)) = 3
                             \<and> GetDepth (last fixed_images) \<noteq> 0)
                     then Inr (zero_displacement_field (last fixed_images))
                     else Inl (RuntimeError 0)))
       \<and> (\<forall>field. snd (create_initial_displacement_field lib initial_transform fixed_images)
                      = Inr field
                 \<longrightarrow> (initial_transform \<noteq> None
                        \<longrightarrow> TransformToDisplacementField_on_requested_grid lib)
                 \<longrightarrow> same_grid field (last fixed_images))
       \<and> (descriptors shrink_factors smoothing_sigmas = [] \<longrightarrow> last fixed_images = fixed_image)
       \<and> (descriptors shrink_factors smoothing_sigmas \<noteq> [] \<longrightarrow>
            snd (smooth_and_resample lib fixed_image
                   (fst (hd (descriptors shrink_factors smoothing_sigmas)))
                   (snd (hd (descriptors shrink_factors smoothing_sigmas))))
              = Inr (last fixed_images))
       \<and> (Resample_on_requested_grid lib
            \<and> sorted_wrt (\<ge>) (map fst (descriptors shrink_factors smoothing_sigmas))
            \<and> (\<forall>descriptor \<in> set (descriptors shrink_factors smoothing_sigmas).
                  1 \<le> fst descriptor)
          \<longrightarrow> (\<forall>level \<in> set fixed_images. no_finer (last fixed_images) level))"
proof -
  let ?coarsest = "last fixed_images"
  have ne: "fixed_images \<noteq> []"
    using create_image_pyramid_shape [OF assms] by simp
  have given: "create_initial_displacement_field lib (Some t) fixed_images
              = ([Call_TransformToDisplacementField t sitkVectorFloat64 (GetSize ?coarsest)
                    (GetOrigin ?coarsest) (GetSpacing ?coarsest) (GetDirection ?coarsest)],
                 TransformToDisplacementField lib t sitkVectorFloat64 (GetSize ?coarsest)
                    (GetOrigin ?coarsest) (GetSpacing ?coarsest) (GetDirection ?coarsest))" for t
    using ne by (simp add: create_initial_displacement_field_def call_io_def)
  have none: "create_initial_displacement_field lib None fixed_images
              = ([], if length (GetSize ?coarsest) = 2
                        \<or> (length (GetSize ?coarsest) = 3 \<and> GetDepth ?coarsest \<noteq> 0)
                     then Inr (zero_displacement_field ?coarsest)
                     else Inl (RuntimeError 0))"
    using ne by (simp add: create_initial_displacement_field_def zero_field_created lift_io_def)
  have grid: "same_grid field ?coarsest"
    if run: "snd (create_initial_displacement_field lib initial_transform fixed_images) = Inr field"
      and contract: "initial_transform \<noteq> None \<longrightarrow> TransformToDisplacementField_on_requested_grid lib"
    for field
  proof (cases initial_transform)
    case None
    then have "field = zero_displacement_field ?coarsest"
      using run none by (simp split: if_splits)
    then show ?thesis by (simp add: same_grid_def zero_displacement_field_def)
  next
    case (Some t)
    then have "TransformToDisplacementField lib t sitkVectorFloat64 (GetSize ?coarsest)
                    (GetOrigin ?coarsest) (GetSpacing ?coarsest) (GetDirection ?coarsest) = Inr field"
      using run given by simp
    moreover have "TransformToDisplacementField_on_requested_grid lib"
      using contract Some by simp
    ultimately show ?thesis
      unfolding TransformToDisplacementField_on_requested_grid_def same_grid_def by blast
  qed
  have coarsest: "\<forall>level \<in> set fixed_images. no_finer ?coarsest level"
    if contract: "Resample_on_requested_grid lib"
      and ordered: "sorted_wrt (\<ge>) (map fst (descriptors shrink_factors smoothing_sigmas))"
      and factors: "\<forall>descriptor \<in> set (descriptors shrink_factors smoothing_sigmas).
                      1 \<le> fst descriptor"
  proof -
    have "sorted_wrt no_finer (rev fixed_images)"
      using pyramid_coarse_to_fine [OF assms contract ordered factors] by simp
    then have "\<forall>level \<in> set (rev fixed_images). no_finer (hd (rev fixed_images)) level"
      by (rule sorted_wrt_hd) simp
    then show ?thesis using ne by (simp add: hd_rev)
  qed
  note last = create_image_pyramid_last [OF assms]
  show ?thesis
  proof (intro conjI allI impI)
    fix t assume "initial_transform = Some t"
    then show "create_initial_displacement_field lib initial_transform fixed_images
              = ([Call_TransformToDisplacementField t sitkVectorFloat64 (GetSize ?coarsest)
                    (GetOrigin ?coarsest) (GetSpacing ?coarsest) (GetDirection ?coarsest)],
                 TransformToDisplacementField lib t sitkVectorFloat64 (GetSize ?coarsest)
                    (GetOrigin ?coarsest) (GetSpacing ?coarsest) (GetDirection ?coarsest))"
      using given by simp
  next
    assume "initial_transform = None"
    then show "create_initial_displacement_field lib initial_transform fixed_images
              = ([], if length (GetSize ?coarsest) = 2
                        \<or> (length (GetSize ?coarsest) = 3 \<and> GetDepth ?coarsest \<noteq> 0)
                     then Inr (zero_displacement_field ?coarsest)
                     else Inl (RuntimeError 0))"
      using none by simp
  next
    fix field
    assume "snd (create_initial_displacement_field lib initial_transform fixed_images) = Inr field"
      and "initial_transform \<noteq> None \<longrightarrow> TransformToDisplacementField_on_requested_grid lib"
    then show "same_grid field ?coarsest" by (rule grid)
  next
    assume "descriptors shrink_factors smoothing_sigmas = []"
    then show "?coarsest = fixed_image" using last by simp
  next
    assume "descriptors shrink_factors smoothing_sigmas \<noteq> []"
    then show "snd (smooth_and_resample lib fixed_image
                   (fst (hd (descriptors shrink_factors smoothing_sigmas)))
                   (snd (hd (descriptors shrink_factors smoothing_sigmas))))
              = Inr ?coarsest" using last by simp
  next
    assume "Resample_on_requested_grid lib
            \<and> sorted_wrt (\<ge>) (map fst (descriptors shrink_factors smoothing_sigmas))
            \<and> (\<forall>descriptor \<in> set (descriptors shrink_factors smoothing_sigmas).
                  1 \<le> fst descriptor)"
    then show "\<forall>level \<in> set fixed_images. no_finer ?coarsest level"
      using coarsest by blast
  qed
qed

theorem initial_field_on_first_level_grid_witness:
  "snd (create_image_pyramid mock_sitk (square_image 8) (square_image 8) (Some [4, 2]) (Some [8, 4]))
     = Inr ([square_image 8, level_by_2, level_by_4], [square_image 8, level_by_2, level_by_4])
   \<and> last [square_image 8, level_by_2, level_by_4]
       = level_by_4
   \<and> snd (smooth_and_resample mock_sitk (square_image 8) 4 8)
       = Inr level_by_4
   \<and> create_initial_displacement_field mock_sitk None
        [square_image 8, level_by_2, level_by_4]
       = ([], Inr (zero_displacement_field level_by_4))
   \<and> same_grid (zero_displacement_field level_by_4)
        level_by_4
   \<and> TransformToDisplacementField_on_requested_grid mock_sitk
   \<and> create_initial_displacement_field mock_sitk (Some 3)
        [square_image 8, level_by_2, level_by_4]
       = ([Call_TransformToDisplacementField 3 sitkVectorFloat64 [2, 2] [0, 0] [7, 7] [1, 0, 0, 1]],
          Inr (constant_image [2, 2] [7, 7] [0, 0] [1, 0, 0, 1] sitkVectorFloat64 [3, 3]))
   \<and> same_grid (constant_image [2, 2] [7, 7] [0, 0] [1, 0, 0, 1] sitkVectorFloat64 [3, 3])
        level_by_4
   \<and> Resample_on_requested_grid mock_sitk
   \<and> sorted_wrt (\<ge>) (map fst (descriptors (Some [4, 2]) (Some [8, 4])))
   \<and> list_all (\<lambda>descriptor. 1 \<le> fst descriptor) (descriptors (Some [4, 2]) (Some [8, 4]))
   \<and> no_finer level_by_4 (square_image 8)
   \<and> no_finer level_by_4 level_by_2
   \<and> no_finer level_by_4 level_by_4"
proof -
  let ?ds = "descriptors (Some [4, 2]) (Some [8, 4])"
  have run: "snd (create_image_pyramid mock_sitk (square_image 8) (square_image 8) (Some [4, 2])
                    (Some [8, 4]))
     = Inr ([square_image 8, level_by_2, level_by_4], [square_image 8, level_by_2, level_by_4])"
    by (simp add: mock_pyramid)
  note none = initial_field_on_first_level_grid [OF run, of None]
  note some = initial_field_on_first_level_grid [OF run, of "Some 3"]
  have "same_grid (zero_displacement_field level_by_4)
        level_by_4"
    using none by (simp add: mock_initial_field_None)
  moreover have "same_grid (constant_image [2, 2] [7, 7] [0, 0] [1, 0, 0, 1] sitkVectorFloat64 [3, 3])
        level_by_4"
    using some mock_TransformToDisplacementField_on_requested_grid
    by (simp add: mock_initial_field_Some)
  moreover have ordered: "sorted_wrt (\<ge>) (map fst ?ds)"
    "list_all (\<lambda>descriptor. 1 \<le> fst descriptor) ?ds"
    by (simp_all add: descriptors_def)
  moreover from none have "Resample_on_requested_grid mock_sitk \<and> sorted_wrt (\<ge>) (map fst ?ds)
       \<and> (\<forall>descriptor \<in> set ?ds. 1 \<le> fst descriptor)
     \<longrightarrow> (\<forall>level \<in> set [square_image 8, level_by_2, level_by_4].
            no_finer (last [square_image 8, level_by_2, level_by_4]) level)"
    by blast
  then have "no_finer level_by_4 (square_image 8) \<and> no_finer level_by_4 level_by_2
             \<and> no_finer level_by_4 level_by_4"
    using ordered mock_Resample_on_requested_grid by (simp add: list_all_iff)
  ultimately show ?thesis
    using run mock_TransformToDisplacementField_on_requested_grid mock_Resample_on_requested_grid
    by (simp add: mock_initial_field_None mock_initial_field_Some mock_level_4)
qed

end
